(* ===== verification/Prelude.thy ===== *)
theory Prelude
  imports Complex_Main "HOL-Library.Sublist"
begin

text \<open>
  Shared vocabulary of the development: Python exceptions as a datatype, an
  exception-and-state monad \<open>('s, 'a) io\<close> in which every statement of
  \<^verbatim>\<open>src/app.py\<close> is written (a raised exception is an \<open>Inl\<close> result and the
  state reached so far is kept, as in Python), the \<^verbatim>\<open>try/except\<close> and
  \<^verbatim>\<open>try/finally\<close> combinators, and the Python built-ins the source uses on
  strings and lists (\<^verbatim>\<open>in\<close>, \<^verbatim>\<open>str.rsplit\<close>, \<^verbatim>\<open>str.lower\<close>, indexing,
  slicing, \<^verbatim>\<open>any\<close>, \<^verbatim>\<open>max\<close> with a key).
\<close>

named_theorems io_simps "unfolding equations of the exception-state monad"
named_theorems py_simps "evaluation equations of the Python built-ins"

section \<open>Python exceptions\<close>

datatype exc_class =
    FileNotFoundError
  | IndexError
  | ValueError
  | OSError
  | LibraryError
  | RequestEntityTooLarge

text \<open>An exception object: its class and the message \<^verbatim>\<open>str(e)\<close> returns.\<close>

datatype exn = Exn (exn_class: exc_class) (exn_msg: string)

section \<open>The exception-and-state monad\<close>

type_synonym ('s, 'a) io = "'s \<Rightarrow> (exn + 'a) \<times> 's"

definition return_io :: "'a \<Rightarrow> ('s, 'a) io" where
  "return_io x s = (Inr x, s)"

definition raise_io :: "exn \<Rightarrow> ('s, 'a) io" where
  "raise_io e s = (Inl e, s)"

definition lift_io :: "exn + 'a \<Rightarrow> ('s, 'a) io" where
  "lift_io r s = (r, s)"

definition bind_io :: "('s, 'a) io \<Rightarrow> ('a \<Rightarrow> ('s, 'b) io) \<Rightarrow> ('s, 'b) io" where
  "bind_io m f s = (case m s of (Inl e, s') \<Rightarrow> (Inl e, s') | (Inr x, s') \<Rightarrow> f x s')"

text \<open>\<^verbatim>\<open>try: m except Exception as e: h(e)\<close>\<close>

definition try_except :: "('s, 'a) io \<Rightarrow> (exn \<Rightarrow> ('s, 'a) io) \<Rightarrow> ('s, 'a) io" where
  "try_except m h s = (case m s of (Inl e, s') \<Rightarrow> h e s' | (Inr x, s') \<Rightarrow> (Inr x, s'))"

text \<open>
  \<^verbatim>\<open>try: m finally: c\<close>: the clean-up runs on every outcome of \<open>m\<close>; an
  exception of the clean-up replaces the outcome of \<open>m\<close>, otherwise the outcome
  of \<open>m\<close> (its value or its exception) is kept.
\<close>

definition try_finally :: "('s, 'a) io \<Rightarrow> ('s, unit) io \<Rightarrow> ('s, 'a) io" where
  "try_finally m c s =
     (case m s of (r, s1) \<Rightarrow>
        (case c s1 of (Inl e, s2) \<Rightarrow> (Inl e, s2) | (Inr _, s2) \<Rightarrow> (r, s2)))"

declare return_io_def [io_simps] raise_io_def [io_simps] lift_io_def [io_simps]
  bind_io_def [io_simps] try_except_def [io_simps] try_finally_def [io_simps]

section \<open>Python built-ins on strings and lists\<close>

text \<open>\<^verbatim>\<open>xs[i]\<close> for a non-negative index, raising \<^verbatim>\<open>IndexError\<close> out of range.\<close>

definition py_index :: "'a list \<Rightarrow> nat \<Rightarrow> exn + 'a" where
  "py_index xs i =
     (if i < length xs then Inr (xs ! i) else Inl (Exn IndexError ''list index out of range''))"

text \<open>
  A bound of a slice \<^verbatim>\<open>xs[lo:hi]\<close> (step 1), as CPython and numpy adjust it:
  a negative bound counts from the end and is then clipped at 0, a bound past the
  end is clipped at the length.
\<close>

definition py_slice_bound :: "int \<Rightarrow> int \<Rightarrow> nat" where
  "py_slice_bound n i = nat (if i < 0 then max 0 (i + n) else min i n)"

definition py_slice :: "'a list \<Rightarrow> int \<Rightarrow> int \<Rightarrow> 'a list" where
  "py_slice xs lo hi =
     (let n = int (length xs); a = py_slice_bound n lo; b = py_slice_bound n hi
      in take (b - a) (drop a xs))"

text \<open>\<^verbatim>\<open>s.rsplit(c, 1)\<close>: one piece when \<open>c\<close> does not occur, else the parts
  before and after its last occurrence.\<close>

definition rsplit1 :: "char \<Rightarrow> string \<Rightarrow> string list" where
  "rsplit1 c s =
     (if c \<in> set s
      then [rev (tl (dropWhile (\<lambda>x. x \<noteq> c) (rev s))), rev (takeWhile (\<lambda>x. x \<noteq> c) (rev s))]
      else [s])"

text \<open>\<^verbatim>\<open>str.lower\<close> on the ASCII letters (the letters of the allowed extensions).\<close>

definition lower_char :: "char \<Rightarrow> char" where
  "lower_char c =
     (case map_of (zip ''ABCDEFGHIJKLMNOPQRSTUVWXYZ'' ''abcdefghijklmnopqrstuvwxyz'') c of
        Some l \<Rightarrow> l
      | None \<Rightarrow> c)"

definition py_lower :: "string \<Rightarrow> string" where
  "py_lower s = map lower_char s"

text \<open>\<^verbatim>\<open>str(n)\<close> for a natural number: its decimal digits.\<close>

fun dec_str :: "nat \<Rightarrow> string" where
  "dec_str n =
     (if n < 10 then [''0123456789'' ! n] else dec_str (n div 10) @ [''0123456789'' ! (n mod 10)])"

declare dec_str.simps [simp del]

text \<open>\<^verbatim>\<open>max(xs, key=f)\<close>: the first element whose key is not exceeded by a later
  one, found by the scan of CPython's \<^verbatim>\<open>min_max\<close>, which replaces the current
  maximum only by a strictly greater key; \<^verbatim>\<open>ValueError\<close> on an empty list.\<close>

fun max_key_scan :: "('a \<Rightarrow> 'k::linorder) \<Rightarrow> 'a \<Rightarrow> 'a list \<Rightarrow> 'a" where
  "max_key_scan f m [] = m"
| "max_key_scan f m (x # xs) = max_key_scan f (if f m < f x then x else m) xs"

definition py_max_key :: "('a \<Rightarrow> 'k::linorder) \<Rightarrow> 'a list \<Rightarrow> exn + 'a" where
  "py_max_key f xs =
     (case xs of [] \<Rightarrow> Inl (Exn ValueError ''max() arg is an empty sequence'')
      | x # xs' \<Rightarrow> Inr (max_key_scan f x xs'))"

text \<open>The reference for \<^verbatim>\<open>max\<close> with a key: the first element whose key is the
  greatest.\<close>

definition first_max :: "('a \<Rightarrow> 'k::linorder) \<Rightarrow> 'a list \<Rightarrow> 'a" where
  "first_max f xs = hd (filter (\<lambda>x. f x = Max (f ` set xs)) xs)"

declare py_index_def [py_simps] py_slice_def [py_simps] py_slice_bound_def [py_simps]
  rsplit1_def [py_simps] py_lower_def [py_simps] lower_char_def [py_simps]
  py_max_key_def [py_simps]

section \<open>Generic lemmas\<close>

subsection \<open>The monad\<close>

lemma bind_io_Inl [simp]:
  "m s = (Inl e, s') \<Longrightarrow> bind_io m f s = (Inl e, s')"
  by (simp add: bind_io_def)

lemma bind_io_Inr [simp]:
  "m s = (Inr x, s') \<Longrightarrow> bind_io m f s = f x s'"
  by (simp add: bind_io_def)

lemma bind_return_io [simp]: "bind_io (return_io x) f = f x"
  by (simp add: bind_io_def return_io_def fun_eq_iff)

lemma bind_lift_io_Inr [simp]: "bind_io (lift_io (Inr x)) f = f x"
  by (simp add: bind_io_def lift_io_def fun_eq_iff)

lemma bind_lift_io_Inl [simp]: "bind_io (lift_io (Inl e)) f = raise_io e"
  by (simp add: bind_io_def lift_io_def raise_io_def fun_eq_iff)

lemma bind_raise_io [simp]: "bind_io (raise_io e) f = raise_io e"
  by (simp add: bind_io_def raise_io_def fun_eq_iff)

lemma bind_io_assoc:
  "bind_io (bind_io m f) g = bind_io m (\<lambda>x. bind_io (f x) g)"
  by (simp add: bind_io_def fun_eq_iff split: prod.splits sum.splits)

text \<open>
  A property \<open>P\<close> of the state that every step of \<open>m\<close> and of each
  continuation keeps is kept by the composition, whatever the outcome.
\<close>

lemma bind_io_state:
  assumes "\<And>r s'. m s = (r, s') \<Longrightarrow> P s'"
    and "\<And>x s' r s''. m s = (Inr x, s') \<Longrightarrow> f x s' = (r, s'') \<Longrightarrow> P s''"
  shows "P (snd (bind_io m f s))"
  using assms by (auto simp: bind_io_def split: prod.splits sum.splits) (metis prod.collapse)

lemma try_except_Inr [simp]:
  "m s = (Inr x, s') \<Longrightarrow> try_except m h s = (Inr x, s')"
  by (simp add: try_except_def)

lemma try_except_Inl [simp]:
  "m s = (Inl e, s') \<Longrightarrow> try_except m h s = h e s'"
  by (simp add: try_except_def)

lemma try_finally_ok [simp]:
  "m s = (r, s1) \<Longrightarrow> c s1 = (Inr u, s2) \<Longrightarrow> try_finally m c s = (r, s2)"
  by (simp add: try_finally_def)

lemma try_finally_raise [simp]:
  "m s = (r, s1) \<Longrightarrow> c s1 = (Inl e, s2) \<Longrightarrow> try_finally m c s = (Inl e, s2)"
  by (simp add: try_finally_def)

subsection \<open>Slices\<close>

lemma py_slice_bound_le: "0 \<le> n \<Longrightarrow> py_slice_bound n i \<le> nat n"
  by (auto simp: py_slice_bound_def intro: nat_mono)

lemma py_slice_bound_nonneg:
  "0 \<le> i \<Longrightarrow> i \<le> n \<Longrightarrow> py_slice_bound n i = nat i"
  by (simp add: py_slice_bound_def)

lemma py_slice_in_range:
  assumes "0 \<le> lo" "lo \<le> hi" "hi \<le> int (length xs)"
  shows "py_slice xs lo hi = take (nat hi - nat lo) (drop (nat lo) xs)"
  using assms by (simp add: py_slice_def py_slice_bound_nonneg Let_def)

lemma py_slice_prefix: "0 \<le> n \<Longrightarrow> py_slice xs 0 n = take (nat n) xs"
  by (simp add: py_slice_def py_slice_bound_def Let_def min_def nat_le_iff)

lemma length_py_slice:
  "length (py_slice xs lo hi) =
     py_slice_bound (int (length xs)) hi - py_slice_bound (int (length xs)) lo"
proof -
  have "py_slice_bound (int (length xs)) hi \<le> length xs"
    using py_slice_bound_le [of "int (length xs)" hi] by simp
  then show ?thesis by (simp add: py_slice_def Let_def)
qed

lemma set_py_slice: "set (py_slice xs lo hi) \<subseteq> set xs"
  by (auto simp: py_slice_def Let_def dest: in_set_takeD in_set_dropD)

subsection \<open>Strings\<close>

lemma rsplit1_no_sep: "c \<notin> set s \<Longrightarrow> rsplit1 c s = [s]"
  by (simp add: rsplit1_def)

lemma rsplit1_last_sep:
  "c \<notin> set b \<Longrightarrow> rsplit1 c (a @ c # b) = [a, b]"
proof -
  assume b: "c \<notin> set b"
  have tw: "takeWhile (\<lambda>x. x \<noteq> c) (rev b @ c # rev a) = rev b"
    using b by (subst takeWhile_append2) auto
  have dw: "dropWhile (\<lambda>x. x \<noteq> c) (rev b @ c # rev a) = c # rev a"
    using b by (subst dropWhile_append2) auto
  show ?thesis using tw dw by (simp add: rsplit1_def)
qed

lemma rsplit1_index1_eq:
  "c \<in> set s \<Longrightarrow> py_index (rsplit1 c s) 1 = Inr (rev (takeWhile (\<lambda>x. x \<noteq> c) (rev s)))"
  by (simp add: rsplit1_def py_index_def)

lemma split_last_occurrence:
  "c \<in> set s \<Longrightarrow> \<exists>a b. s = a @ c # b \<and> c \<notin> set b"
proof (induction s rule: rev_induct)
  case Nil
  then show ?case by simp
next
  case (snoc x xs)
  show ?case
  proof (cases "x = c")
    case True
    then show ?thesis by (intro exI [of _ xs] exI [of _ "[]"]) simp
  next
    case False
    with snoc.prems have "c \<in> set xs" by simp
    with snoc.IH obtain a b where "xs = a @ c # b" "c \<notin> set b" by blast
    with False show ?thesis by (intro exI [of _ a] exI [of _ "b @ [x]"]) simp
  qed
qed

lemma lower_char_not_upper [simp]:
  "c \<notin> set ''ABCDEFGHIJKLMNOPQRSTUVWXYZ'' \<Longrightarrow> lower_char c = c"
  by (simp add: lower_char_def)

lemma map_of_zip_cases:
  assumes "length xs = length ys"
  shows "(case map_of (zip xs ys) c of Some l \<Rightarrow> l | None \<Rightarrow> c) = c \<and> c \<notin> set xs
    \<or> c \<in> set xs \<and> (case map_of (zip xs ys) c of Some l \<Rightarrow> l | None \<Rightarrow> c) \<in> set ys"
proof (cases "map_of (zip xs ys) c")
  case None
  then show ?thesis using map_of_zip_is_None [OF assms, of c] by simp
next
  case (Some l)
  then have "l \<in> set ys" by (auto dest: map_of_SomeD set_zip_rightD)
  with Some show ?thesis using map_of_zip_is_None [OF assms, of c] by auto
qed

lemma lower_char_cases:
  "lower_char c = c \<and> c \<notin> set ''ABCDEFGHIJKLMNOPQRSTUVWXYZ''
   \<or> c \<in> set ''ABCDEFGHIJKLMNOPQRSTUVWXYZ'' \<and> lower_char c \<in> set ''abcdefghijklmnopqrstuvwxyz''"
  unfolding lower_char_def by (rule map_of_zip_cases) simp

lemma lower_not_upper:
  "list_all (\<lambda>x. x \<notin> set ''ABCDEFGHIJKLMNOPQRSTUVWXYZ'') ''abcdefghijklmnopqrstuvwxyz''"
  by simp

lemma lower_char_idem [simp]: "lower_char (lower_char c) = lower_char c"
proof -
  have "x \<in> set ''abcdefghijklmnopqrstuvwxyz'' \<Longrightarrow> lower_char x = x" for x
    using lower_not_upper by (simp only: list_all_iff) (blast intro: lower_char_not_upper)
  then show ?thesis using lower_char_cases [of c] by metis
qed

lemma lower_char_dot [simp]: "lower_char c = CHR ''.'' \<longleftrightarrow> c = CHR ''.''"
proof -
  have "CHR ''.'' \<notin> set ''abcdefghijklmnopqrstuvwxyz''" "CHR ''.'' \<notin> set ''ABCDEFGHIJKLMNOPQRSTUVWXYZ''"
    by simp_all
  then show ?thesis using lower_char_cases [of c] by metis
qed

lemma dot_lower_char [simp]: "CHR ''.'' = lower_char c \<longleftrightarrow> c = CHR ''.''"
  using lower_char_dot [of c] by metis

lemma py_lower_idem [simp]: "py_lower (py_lower s) = py_lower s"
  by (simp add: py_lower_def)

lemma dot_py_lower [simp]: "CHR ''.'' \<in> set (py_lower s) \<longleftrightarrow> CHR ''.'' \<in> set s"
  by (auto simp: py_lower_def image_iff)

lemma dec_str_digit [simp]: "n < 10 \<Longrightarrow> dec_str n = [''0123456789'' ! n]"
  by (simp add: dec_str.simps)

lemma dec_str_digits: "set (dec_str n) \<subseteq> set ''0123456789'' \<and> dec_str n \<noteq> []"
proof (induction n rule: dec_str.induct)
  case (1 n)
  have d: "''0123456789'' ! (n mod 10) \<in> set ''0123456789''" by (rule nth_mem) simp
  have e: "n < 10 \<Longrightarrow> ''0123456789'' ! n \<in> set ''0123456789''" by (rule nth_mem) simp
  show ?case
  proof (cases "n < 10")
    case True
    with e show ?thesis by (simp only: dec_str.simps [of n] if_True) simp
  next
    case False
    with 1 d show ?thesis by (simp only: dec_str.simps [of n] if_False) auto
  qed
qed

lemma dec_str_relative: "dec_str n = [] \<or> hd (dec_str n) \<noteq> CHR ''/''"
proof -
  have "hd (dec_str n) \<in> set ''0123456789''" using dec_str_digits [of n] by (auto intro: hd_in_set)
  then show ?thesis by auto
qed

subsection \<open>The scan of \<^verbatim>\<open>max\<close> with a key\<close>

lemma max_key_scan_mem: "max_key_scan f m xs \<in> insert m (set xs)"
proof (induction xs arbitrary: m)
  case Nil
  then show ?case by simp
next
  case (Cons x xs)
  show ?case
    using Cons.IH [of "if f m < f x then x else m"] by (auto split: if_splits)
qed

lemma max_key_scan_start: "f m \<le> f (max_key_scan f m xs)"
proof (induction xs arbitrary: m)
  case Nil
  then show ?case by simp
next
  case (Cons x xs)
  have "f m \<le> f (if f m < f x then x else m)" by (simp add: less_imp_le)
  also have "\<dots> \<le> f (max_key_scan f (if f m < f x then x else m) xs)" by (rule Cons.IH)
  finally show ?case by simp
qed

lemma max_key_scan_ge: "x \<in> set xs \<Longrightarrow> f x \<le> f (max_key_scan f m xs)"
proof (induction xs arbitrary: m)
  case Nil
  then show ?case by simp
next
  case (Cons y xs)
  show ?case
  proof (cases "x = y")
    case True
    have "f y \<le> f (if f m < f y then y else m)" by (simp add: not_less)
    also have "\<dots> \<le> f (max_key_scan f (if f m < f y then y else m) xs)"
      by (rule max_key_scan_start)
    finally show ?thesis using True by simp
  next
    case False
    with Cons show ?thesis by simp
  qed
qed

lemma Max_image_le: "x \<in> set xs \<Longrightarrow> f x \<le> Max (f ` set xs)"
  by simp

lemma Max_image_insert_below:
  assumes "f a \<le> f b" "b \<in> set xs"
  shows "Max (f ` set (a # xs)) = Max (f ` set xs)"
proof -
  have "f a \<le> Max (f ` set xs)" by (rule order.trans [OF assms(1) Max_image_le [OF assms(2), of f]])
  moreover have "xs \<noteq> []" using assms(2) by auto
  ultimately show ?thesis by (simp add: max_def)
qed

lemma max_key_scan_first_max: "max_key_scan f m xs = first_max f (m # xs)"
proof (induction xs arbitrary: m)
  case Nil
  then show ?case by (simp add: first_max_def)
next
  case (Cons x xs)
  show ?case
  proof (cases "f m < f x")
    case True
    have M: "Max (f ` set (m # x # xs)) = Max (f ` set (x # xs))"
      using True by (intro Max_image_insert_below [of f m x]) simp_all
    have "f m < Max (f ` set (x # xs))"
      by (rule less_le_trans [OF True Max_image_le [of x "x # xs" f]]) simp
    then have "f m \<noteq> Max (f ` set (x # xs))" by simp
    then have "first_max f (m # x # xs) = first_max f (x # xs)"
      unfolding first_max_def M by simp
    with True Cons.IH [of x] show ?thesis by simp
  next
    case False
    then have le: "f x \<le> f m" by simp
    have "Max (f ` set (x # m # xs)) = Max (f ` set (m # xs))"
      using le by (intro Max_image_insert_below [of f x m]) simp_all
    then have M: "Max (f ` set (m # x # xs)) = Max (f ` set (m # xs))"
      by (simp add: insert_commute)
    have "first_max f (m # x # xs) = first_max f (m # xs)"
    proof (cases "f m = Max (f ` set (m # xs))")
      case True
      then show ?thesis unfolding first_max_def M by simp
    next
      case False
      have "f m \<le> Max (f ` set (m # xs))" by (rule Max_image_le) simp
      then have lt: "f m < Max (f ` set (m # xs))" using False by (rule le_neq_trans)
      have "f x \<noteq> Max (f ` set (m # xs))" using le_less_trans [OF le lt] by simp
      with False show ?thesis unfolding first_max_def M by simp
    qed
    with False Cons.IH [of m] show ?thesis by simp
  qed
qed

lemma py_max_key_first_max:
  "py_max_key f xs =
     (if xs = [] then Inl (Exn ValueError ''max() arg is an empty sequence'') else Inr (first_max f xs))"
  by (cases xs) (simp_all add: py_max_key_def max_key_scan_first_max)

end
