(* ===== verification/Runtime.thy ===== *)
theory Runtime
  imports Prelude
begin

text \<open>
  The world the handler of \<^verbatim>\<open>src/app.py\<close> runs in: the configuration
  constants (lines 11--14), the file system under the upload folder and the
  \<^verbatim>\<open>uuid4\<close> generator as a state record, the operations of \<^verbatim>\<open>os\<close> and
  \<^verbatim>\<open>uuid\<close> the source calls, the interface of the image, detection and
  verification libraries as a record of functions, and the JSON responses.
\<close>

section \<open>Configuration\<close>

definition UPLOAD_FOLDER :: string where
  "UPLOAD_FOLDER = ''uploads''"

definition ALLOWED_EXT :: "string set" where
  "ALLOWED_EXT = {''png'', ''jpg'', ''jpeg'', ''webp''}"

definition MAX_CONTENT_LENGTH :: nat where
  "MAX_CONTENT_LENGTH = 10 * 1024 * 1024"

definition CUSTOM_THRESHOLD :: real where
  "CUSTOM_THRESHOLD = 0.55"

section \<open>Data\<close>

type_synonym path = string
type_synonym blob = string
type_synonym rgb = "nat \<times> nat \<times> nat"

text \<open>An RGB image as its rows of pixels, as \<^verbatim>\<open>np.array(img)\<close> holds it.\<close>

type_synonym image = "rgb list list"

definition img_width :: "image \<Rightarrow> nat" where
  "img_width img = (case img of [] \<Rightarrow> 0 | r # _ \<Rightarrow> length r)"

definition img_height :: "image \<Rightarrow> nat" where
  "img_height img = length img"

text \<open>One face found by \<^verbatim>\<open>MTCNN.detect_faces\<close>: its \<^verbatim>\<open>'box'\<close> \<open>[x, y, w, h]\<close>.\<close>

record detection =
  box_x :: int
  box_y :: int
  box_w :: int
  box_h :: int

text \<open>The dictionary \<^verbatim>\<open>DeepFace.verify\<close> returns, read with \<^verbatim>\<open>res.get\<close>.\<close>

record vresult =
  v_distance :: "real option"
  v_model :: "string option"

text \<open>An uploaded file (werkzeug's \<^verbatim>\<open>FileStorage\<close>) and the request.\<close>

record upload =
  filename :: string
  content :: blob

record request =
  req_files :: "(string \<times> upload) list"
  content_length :: nat

text \<open>One entry of the \<^verbatim>\<open>results\<close> list of the response (lines 87--91, 110--116, 119--123).\<close>

datatype cand_result =
    Scored (cr_field: string) (cr_match: bool) (cr_distance: "real option")
      (cr_threshold: real) (cr_model: "string option")
  | Failed (cr_field: string) (cr_error: string)

text \<open>\<^verbatim>\<open>r.get("match")\<close>: the error entries carry \<^verbatim>\<open>"match": False\<close>.\<close>

fun result_match :: "cand_result \<Rightarrow> bool" where
  "result_match (Scored f m d t md) = m"
| "result_match (Failed f e) = False"

datatype response =
    Text_response string
  | Json_error nat string
  | Json_results "cand_result list" bool
  | Http_error nat
  | Allow_response "string list"

section \<open>The world\<close>

text \<open>
  The files (path to content) and the generator behind \<^verbatim>\<open>uuid.uuid4().hex\<close>:
  the \<open>n\<close>-th call returns \<open>uuid_hex w n\<close>.
\<close>

record world =
  files :: "path \<Rightarrow> blob option"
  uuid_hex :: "nat \<Rightarrow> string"
  uuid_count :: nat

section \<open>The libraries the source calls\<close>

text \<open>
  Each library call of the source is a field; a call that can raise returns
  \<open>exn + _\<close>. \<open>open_image\<close> is \<^verbatim>\<open>Image.open(..).convert("RGB")\<close>,
  \<open>thumbnail\<close> is \<^verbatim>\<open>img.thumbnail\<close>, \<open>encode_image q\<close> is the JPEG encoder of
  \<^verbatim>\<open>img.save\<close> at quality \<open>q\<close>, \<open>detect_faces\<close> is the MTCNN detector,
  \<open>face_resize\<close> is \<^verbatim>\<open>Image.fromarray(..).resize((112,112))\<close>, and
  \<open>deepface_verify\<close> is \<^verbatim>\<open>DeepFace.verify\<close> with ArcFace on the contents
  of its two files.
\<close>

record env =
  secure_filename :: "string \<Rightarrow> string"
  open_image :: "blob \<Rightarrow> exn + image"
  thumbnail :: "nat \<times> nat \<Rightarrow> image \<Rightarrow> image"
  encode_image :: "nat \<Rightarrow> image \<Rightarrow> exn + blob"
  detect_faces :: "image \<Rightarrow> exn + detection list"
  face_resize :: "image \<Rightarrow> exn + image"
  deepface_verify :: "blob option \<Rightarrow> blob option \<Rightarrow> exn + vresult"

section \<open>Operations on the world\<close>

text \<open>\<^verbatim>\<open>os.path.join(a, b)\<close> (POSIX).\<close>

definition os_path_join :: "string \<Rightarrow> string \<Rightarrow> string" where
  "os_path_join a b =
     (if b \<noteq> [] \<and> hd b = CHR ''/'' then b
      else if a = [] \<or> last a = CHR ''/'' then a @ b else a @ ''/'' @ b)"

definition uuid4_hex :: "(world, string) io" where
  "uuid4_hex w = (Inr (uuid_hex w (uuid_count w)), w\<lparr>uuid_count := Suc (uuid_count w)\<rparr>)"

definition no_such_file :: "path \<Rightarrow> exn" where
  "no_such_file p = Exn FileNotFoundError (''[Errno 2] No such file or directory: '' @ p)"

definition read_file :: "path \<Rightarrow> (world, blob) io" where
  "read_file p w =
     (case files w p of None \<Rightarrow> (Inl (no_such_file p), w) | Some b \<Rightarrow> (Inr b, w))"

definition write_file :: "path \<Rightarrow> blob \<Rightarrow> (world, unit) io" where
  "write_file p b w = (Inr (), w\<lparr>files := (files w)(p \<mapsto> b)\<rparr>)"

definition os_remove :: "path \<Rightarrow> (world, unit) io" where
  "os_remove p w =
     (case files w p of None \<Rightarrow> (Inl (no_such_file p), w)
      | Some _ \<Rightarrow> (Inr (), w\<lparr>files := (files w)(p := None)\<rparr>))"

text \<open>
  \<^verbatim>\<open>img.save(path, ...)\<close>: encode, then write. Pillow removes a file it
  created when the encoder fails, so a failed save leaves no file.
\<close>

definition pil_save :: "env \<Rightarrow> nat \<Rightarrow> image \<Rightarrow> path \<Rightarrow> (world, unit) io" where
  "pil_save env q img p = bind_io (lift_io (encode_image env q img)) (write_file p)"

text \<open>Between two states of one request, files were only ever deleted.\<close>

definition only_deletes :: "world \<Rightarrow> world \<Rightarrow> bool" where
  "only_deletes w w' \<longleftrightarrow> (\<forall>p. files w' p = files w p \<or> files w' p = None)"

lemmas world_ops = uuid4_hex_def read_file_def write_file_def os_remove_def pil_save_def

section \<open>A concrete library behaviour\<close>

text \<open>
  A small, fully computable instance of the library interface, used to run the
  model on concrete inputs. A file is a string of lower-case letters; it decodes
  to a one-row image whose pixels carry the letters' positions in the alphabet,
  and the encoder writes the letters back, so a stored image decodes to itself.
  \<open>thumbnail\<close> cuts the image to the box, the detector finds one 1x1 face at
  the origin when the first pixel is a letter from k on, the resize keeps the
  crop (and fails on an empty one), and the verifier reports distance 0.4 for
  two identical files and 0.8 otherwise.
\<close>

definition demo_code :: "char \<Rightarrow> nat" where
  "demo_code c = length (takeWhile (\<lambda>x. x \<noteq> c) ''abcdefghijklmnopqrstuvwxyz'')"

definition demo_char :: "nat \<Rightarrow> char" where
  "demo_char n = ''abcdefghijklmnopqrstuvwxyz'' ! (n mod 26)"

definition demo_env :: env where
  "demo_env =
     \<lparr>secure_filename = id,
      open_image = (\<lambda>b. Inr [map (\<lambda>c. (demo_code c, 0, 0)) b]),
      thumbnail = (\<lambda>(w, h) img. take h (map (take w) img)),
      encode_image = (\<lambda>q img. Inr (concat (map (map (\<lambda>(r, g, b). demo_char r)) img))),
      detect_faces = (\<lambda>img. Inr (if img \<noteq> [] \<and> hd img \<noteq> [] \<and> 10 \<le> fst (hd (hd img))
                                  then [\<lparr>box_x = 0, box_y = 0, box_w = 1, box_h = 1\<rparr>] else [])),
      face_resize = (\<lambda>img. if img = [] then Inl (Exn ValueError ''tile cannot extend outside image'')
                            else Inr img),
      deepface_verify = (\<lambda>a b. case (a, b) of
                            (Some x, Some y) \<Rightarrow> Inr \<lparr>v_distance = Some (if x = y then 0.4 else 0.8),
                                                      v_model = Some ''ArcFace''\<rparr>
                          | _ \<Rightarrow> Inl (Exn ValueError ''Confirm that the image exists''))\<rparr>"

section \<open>Frame lemmas\<close>

lemma uuid4_hex_files:
  "uuid4_hex w = (r, w') \<Longrightarrow> files w' = files w \<and> uuid_hex w' = uuid_hex w \<and> uuid_count w' = Suc (uuid_count w)"
  by (auto simp: uuid4_hex_def)

lemma read_file_world: "read_file p w = (r, w') \<Longrightarrow> w' = w"
  by (auto simp: read_file_def split: option.splits)

lemma pil_save_cases:
  "pil_save env q img p w =
     (case encode_image env q img of Inl e \<Rightarrow> (Inl e, w)
      | Inr b \<Rightarrow> (Inr (), w\<lparr>files := (files w)(p \<mapsto> b)\<rparr>))"
  by (simp add: pil_save_def bind_io_def lift_io_def write_file_def split: sum.splits)

lemma pil_save_uuid:
  "pil_save env q img p w = (r, w') \<Longrightarrow> uuid_hex w' = uuid_hex w \<and> uuid_count w' = uuid_count w"
  by (auto simp: pil_save_cases split: sum.splits)

lemma os_remove_uuid:
  "os_remove p w = (r, w') \<Longrightarrow> uuid_hex w' = uuid_hex w \<and> uuid_count w' = uuid_count w"
  by (auto simp: os_remove_def split: option.splits)

lemma os_remove_files:
  "os_remove p w = (r, w') \<Longrightarrow> files w' = (files w)(p := None)"
  by (auto simp: os_remove_def split: option.splits)

lemma os_remove_present:
  "files w p \<noteq> None \<Longrightarrow> os_remove p w = (Inr (), w\<lparr>files := (files w)(p := None)\<rparr>)"
  by (auto simp: os_remove_def)

lemma only_deletes_refl [simp]: "only_deletes w w"
  by (simp add: only_deletes_def)

lemma only_deletes_trans: "only_deletes w1 w2 \<Longrightarrow> only_deletes w2 w3 \<Longrightarrow> only_deletes w1 w3"
  unfolding only_deletes_def by metis

lemma only_deletes_files_eq: "files w' = files w \<Longrightarrow> only_deletes w w'"
  by (simp add: only_deletes_def)

lemma only_deletes_remove2 [simp]:
  "only_deletes w (w'\<lparr>files := (files w)(p := None, q := None)\<rparr>)"
  by (simp add: only_deletes_def)

lemma os_path_join_rel [simp]:
  "b \<noteq> [] \<Longrightarrow> hd b \<noteq> CHR ''/'' \<Longrightarrow> os_path_join UPLOAD_FOLDER b = ''uploads/'' @ b"
  by (simp add: os_path_join_def UPLOAD_FOLDER_def)

end
