(* ===== verification/Validation.thy ===== *)
theory Validation
  imports Runtime
begin

text \<open>
  The request validator: \<^verbatim>\<open>allowed_file\<close> (src/app.py lines 24--25) and the
  loop over the five expected fields at the start of \<^verbatim>\<open>verify\<close> (lines
  60--68), with werkzeug's form parsing, which raises
  \<^verbatim>\<open>RequestEntityTooLarge\<close> when the body exceeds \<^verbatim>\<open>MAX_CONTENT_LENGTH\<close>.
\<close>

section \<open>Definitions\<close>

text \<open>
  \<^verbatim>\<open>"." in filename and filename.rsplit(".", 1)[1].lower() in ALLOWED_EXT\<close>:
  the index \<^verbatim>\<open>[1]\<close> would raise without the guard, so the model keeps the
  \<^verbatim>\<open>IndexError\<close> branch and proves it unreachable.
\<close>

definition allowed_file :: "string \<Rightarrow> exn + bool" where
  "allowed_file fn =
     (if CHR ''.'' \<in> set fn
      then map_sum id (\<lambda>e. py_lower e \<in> ALLOWED_EXT) (py_index (rsplit1 CHR ''.'' fn) 1)
      else Inr False)"

text \<open>\<^verbatim>\<open>request.files.get(key)\<close>: the first part with that name.\<close>

definition files_get :: "request \<Rightarrow> string \<Rightarrow> exn + upload option" where
  "files_get r k =
     (if MAX_CONTENT_LENGTH < content_length r
      then Inl (Exn RequestEntityTooLarge ''413 Request Entity Too Large'')
      else Inr (map_of (req_files r) k))"

definition expected_fields :: "string list" where
  "expected_fields = [''selfie'', ''img1'', ''img2'', ''img3'', ''img4'']"

definition missing_field :: "string \<Rightarrow> response" where
  "missing_field k = Json_error 400 (''Missing file field: '' @ k)"

definition invalid_field :: "string \<Rightarrow> response" where
  "invalid_field k = Json_error 400 (''Invalid file type for field: '' @ k)"

text \<open>
  The loop of lines 62--68. \<^verbatim>\<open>not f\<close> holds for an absent part and for a
  \<^verbatim>\<open>FileStorage\<close> with an empty file name (its truth value is that of its
  file name). The result is an exception, an early response, or the dictionary
  \<^verbatim>\<open>files\<close> in insertion order.
\<close>

fun validate_fields ::
  "request \<Rightarrow> string list \<Rightarrow> (string \<times> upload) list \<Rightarrow> exn + (response + (string \<times> upload) list)"
where
  "validate_fields r [] acc = Inr (Inr acc)"
| "validate_fields r (k # ks) acc =
     (case files_get r k of
        Inl e \<Rightarrow> Inl e
      | Inr None \<Rightarrow> Inr (Inl (missing_field k))
      | Inr (Some u) \<Rightarrow>
          (if filename u = [] then Inr (Inl (missing_field k))
           else (case allowed_file (filename u) of
                   Inl e \<Rightarrow> Inl e
                 | Inr False \<Rightarrow> Inr (Inl (invalid_field k))
                 | Inr True \<Rightarrow> validate_fields r ks (acc @ [(k, u)]))))"

text \<open>
  The reference the loop is compared with: the verdict on one field, and the
  first error of a list of verdicts, or all of their values.
\<close>

definition check_field :: "request \<Rightarrow> string \<Rightarrow> response + upload" where
  "check_field r k =
     (case map_of (req_files r) k of
        None \<Rightarrow> Inl (missing_field k)
      | Some u \<Rightarrow>
          (if filename u = [] then Inl (missing_field k)
           else if allowed_file (filename u) = Inr True then Inr u
           else Inl (invalid_field k)))"

fun first_error :: "('e + 'a) list \<Rightarrow> 'e + 'a list" where
  "first_error [] = Inr []"
| "first_error (Inl e # xs) = Inl e"
| "first_error (Inr a # xs) = map_sum id (Cons a) (first_error xs)"

section \<open>The extension check\<close>

lemma rsplit1_index1:
  assumes "c \<in> set s"
  obtains a b where "s = a @ c # b" "c \<notin> set b" "py_index (rsplit1 c s) 1 = Inr b"
proof -
  from split_last_occurrence [OF assms] obtain a b where s: "s = a @ c # b" "c \<notin> set b"
    by blast
  then have "rsplit1 c s = [a, b]" by (simp add: rsplit1_last_sep)
  with s that show ?thesis by (simp add: py_index_def)
qed

lemma allowed_file_not_Inl [simp]: "allowed_file fn \<noteq> Inl e"
proof (cases "CHR ''.'' \<in> set fn")
  case True
  then obtain a b where "py_index (rsplit1 CHR ''.'' fn) 1 = Inr b"
    by (rule rsplit1_index1)
  with True show ?thesis by (simp add: allowed_file_def)
next
  case False
  then show ?thesis by (simp add: allowed_file_def)
qed

text \<open>C22: the guard \<^verbatim>\<open>"." in filename\<close> makes the index \<^verbatim>\<open>[1]\<close> safe:
  \<^verbatim>\<open>allowed_file\<close> never raises.\<close>

theorem allowed_file_total: "\<exists>b. allowed_file fn = Inr b"
  by (cases "allowed_file fn") simp_all

text \<open>C21: a file name is accepted exactly when it has a dot and the part after
  its last dot, lower-cased, is one of png, jpg, jpeg, webp.\<close>

theorem allowed_file_iff:
  "allowed_file fn = Inr True \<longleftrightarrow>
     (\<exists>a e. fn = a @ ''.'' @ e \<and> CHR ''.'' \<notin> set e \<and> py_lower e \<in> ALLOWED_EXT)"
proof
  assume ok: "allowed_file fn = Inr True"
  then have dot: "CHR ''.'' \<in> set fn"
    by (auto simp: allowed_file_def split: if_splits)
  then obtain a b where "fn = a @ CHR ''.'' # b" "CHR ''.'' \<notin> set b"
      "py_index (rsplit1 CHR ''.'' fn) 1 = Inr b"
    by (rule rsplit1_index1)
  with ok dot show "\<exists>a e. fn = a @ ''.'' @ e \<and> CHR ''.'' \<notin> set e \<and> py_lower e \<in> ALLOWED_EXT"
    by (auto simp: allowed_file_def)
next
  assume "\<exists>a e. fn = a @ ''.'' @ e \<and> CHR ''.'' \<notin> set e \<and> py_lower e \<in> ALLOWED_EXT"
  then obtain a e where fn: "fn = a @ CHR ''.'' # e" "CHR ''.'' \<notin> set e"
      and ext: "py_lower e \<in> ALLOWED_EXT"
    by auto
  then have "rsplit1 CHR ''.'' fn = [a, e]" by (simp add: rsplit1_last_sep)
  with fn ext show "allowed_file fn = Inr True"
    by (simp add: allowed_file_def py_index_def)
qed

section \<open>The validation loop\<close>

lemma check_field_Inr:
  "check_field r k = Inr u \<longleftrightarrow>
     map_of (req_files r) k = Some u \<and> filename u \<noteq> [] \<and> allowed_file (filename u) = Inr True"
  by (auto simp: check_field_def split: option.splits if_splits)

lemma validate_fields_step:
  assumes "content_length r \<le> MAX_CONTENT_LENGTH"
  shows "validate_fields r (k # ks) acc =
     (case check_field r k of Inl resp \<Rightarrow> Inr (Inl resp)
      | Inr u \<Rightarrow> validate_fields r ks (acc @ [(k, u)]))"
  using assms
  by (auto simp: files_get_def check_field_def not_less split: option.splits sum.splits bool.splits)

text \<open>C10: within the size limit, validation reports the first field, in the
  order selfie, img1, \<dots>, img4, that is absent, has an empty file name or a
  disallowed extension, with the message of that failure; when there is none it
  returns the five uploads keyed by field, in that order.\<close>

theorem validate_fields_first_error:
  assumes "content_length r \<le> MAX_CONTENT_LENGTH"
  shows "validate_fields r ks acc =
           Inr (map_sum id (\<lambda>us. acc @ zip ks us) (first_error (map (check_field r) ks)))"
  using assms
proof (induction ks arbitrary: acc)
  case Nil
  then show ?case by simp
next
  case (Cons k ks)
  show ?case
  proof (cases "check_field r k")
    case (Inl resp)
    with Cons.prems show ?thesis by (simp add: validate_fields_step del: validate_fields.simps)
  next
    case (Inr u)
    with Cons.prems Cons.IH [of "acc @ [(k, u)]"] show ?thesis
      by (simp add: validate_fields_step sum.map_comp comp_def del: validate_fields.simps)
  qed
qed

theorem validate_fields_first_error_witness:
  "content_length \<lparr>req_files = [(''selfie'', \<lparr>filename = ''face.gif'', content = ''x''\<rparr>)],
      content_length = 100\<rparr> \<le> MAX_CONTENT_LENGTH \<and>
   validate_fields \<lparr>req_files = [(''selfie'', \<lparr>filename = ''face.gif'', content = ''x''\<rparr>)],
      content_length = 100\<rparr> expected_fields [] = Inr (Inl (invalid_field ''selfie''))"
  using validate_fields_first_error
    [of "\<lparr>req_files = [(''selfie'', \<lparr>filename = ''face.gif'', content = ''x''\<rparr>)],
      content_length = 100\<rparr>" expected_fields "[]"]
  by (simp add: expected_fields_def MAX_CONTENT_LENGTH_def check_field_def allowed_file_def
      py_simps ALLOWED_EXT_def)

end
