(* ===== verification/Storage.thy ===== *)
theory Storage
  imports Runtime
begin

text \<open>
  The image normaliser and persister \<^verbatim>\<open>save_file\<close> (src/app.py lines
  27--38): the extension taken from the sanitised client file name, a fresh
  \<^verbatim>\<open>uuid4\<close> name under the upload folder, decoding, the bound of 1200 pixels on
  the longer side, and the JPEG re-encoding at quality 85 written to that path.
\<close>

section \<open>Definitions\<close>

text \<open>\<^verbatim>\<open>filename.rsplit(".", 1)[1].lower() if "." in filename else "jpg"\<close>\<close>

definition ext_of :: "string \<Rightarrow> exn + string" where
  "ext_of fname =
     (if CHR ''.'' \<in> set fname
      then map_sum id py_lower (py_index (rsplit1 CHR ''.'' fname) 1)
      else Inr ''jpg'')"

text \<open>\<^verbatim>\<open>max_dim = 1200\<close>\<close>

definition MAX_DIM :: nat where
  "MAX_DIM = 1200"

text \<open>\<^verbatim>\<open>if max(img.size) > max_dim: img.thumbnail((max_dim, max_dim))\<close>\<close>

definition bound_size :: "env \<Rightarrow> image \<Rightarrow> image" where
  "bound_size env img =
     (if MAX_DIM < max (img_width img) (img_height img)
      then thumbnail env (MAX_DIM, MAX_DIM) img else img)"

text \<open>The stored path \<^verbatim>\<open>os.path.join(UPLOAD_FOLDER, f"{uuid}.{ext}")\<close>.\<close>

definition upload_path :: "string \<Rightarrow> string \<Rightarrow> path" where
  "upload_path h ext = os_path_join UPLOAD_FOLDER (h @ ''.'' @ ext)"

definition save_file :: "env \<Rightarrow> upload \<Rightarrow> (world, path) io" where
  "save_file env f =
     (let fname = secure_filename env (filename f) in
      bind_io (lift_io (ext_of fname)) (\<lambda>ext.
      bind_io uuid4_hex (\<lambda>h.
      let p = upload_path h ext in
      bind_io (lift_io (open_image env (content f))) (\<lambda>img.
      bind_io (pil_save env 85 (bound_size env img) p) (\<lambda>_.
      return_io p)))))"

text \<open>The extension \<open>ext_of\<close> computes, as a total function (it never raises,
  by \<open>ext_of_stored_ext\<close> below).\<close>

definition stored_ext :: "string \<Rightarrow> string" where
  "stored_ext fname =
     (if CHR ''.'' \<in> set fname
      then py_lower (rev (takeWhile (\<lambda>x. x \<noteq> CHR ''.'') (rev fname))) else ''jpg'')"

section \<open>Properties\<close>

lemma ext_of_eq:
  "ext_of fname =
     Inr (if CHR ''.'' \<in> set fname
          then py_lower (rev (takeWhile (\<lambda>x. x \<noteq> CHR ''.'') (rev fname))) else ''jpg'')"
  by (cases "CHR ''.'' \<in> set fname") (simp_all add: ext_of_def rsplit1_def py_index_def)

lemma ext_of_stored_ext [simp]: "ext_of fname = Inr (stored_ext fname)"
  by (simp add: ext_of_eq stored_ext_def)

lemma upload_path_eq:
  "h = [] \<or> hd h \<noteq> CHR ''/'' \<Longrightarrow> upload_path h ext = ''uploads/'' @ h @ ''.'' @ ext"
  by (cases h) (simp_all add: upload_path_def os_path_join_def UPLOAD_FOLDER_def)

lemma stored_ext_no_dot: "CHR ''.'' \<notin> set (stored_ext fname)"
  by (auto simp: stored_ext_def dest: set_takeWhileD)

lemma py_lower_stored_ext [simp]: "py_lower (stored_ext fname) = stored_ext fname"
  by (simp add: stored_ext_def py_lower_def)

lemma stored_ext_append: "CHR ''.'' \<notin> set e \<Longrightarrow> stored_ext (p @ ''.'' @ e) = py_lower e"
  by (simp add: stored_ext_def takeWhile_append)

lemma upload_path_suffix: "\<exists>q. upload_path h e = q @ ''.'' @ e"
  by (auto simp: upload_path_def os_path_join_def)

lemma stored_ext_upload_path: "stored_ext (upload_path h (stored_ext fname)) = stored_ext fname"
proof -
  obtain q where q: "upload_path h (stored_ext fname) = q @ ''.'' @ stored_ext fname"
    using upload_path_suffix by blast
  show ?thesis unfolding q stored_ext_append [OF stored_ext_no_dot] by simp
qed

lemma upload_path_prefix: "prefix (upload_path h []) (upload_path h e)"
  by (cases h) (auto simp: upload_path_def os_path_join_def UPLOAD_FOLDER_def)

lemma save_file_eq:
  "save_file env f w =
     (let w1 = w\<lparr>uuid_count := Suc (uuid_count w)\<rparr>;
          p = upload_path (uuid_hex w (uuid_count w)) (stored_ext (secure_filename env (filename f)))
      in case open_image env (content f) of
           Inl e \<Rightarrow> (Inl e, w1)
         | Inr img \<Rightarrow>
             (case encode_image env 85 (bound_size env img) of
                Inl e \<Rightarrow> (Inl e, w1)
              | Inr b \<Rightarrow> (Inr p, w1\<lparr>files := (files w)(p \<mapsto> b)\<rparr>)))"
proof (cases "open_image env (content f)")
  case (Inl e)
  then show ?thesis by (simp add: save_file_def uuid4_hex_def io_simps Let_def)
next
  case (Inr img)
  then show ?thesis
    by (cases "encode_image env 85 (bound_size env img)")
      (simp_all add: save_file_def uuid4_hex_def pil_save_cases io_simps Let_def)
qed

text \<open>C15: \<^verbatim>\<open>save_file\<close> draws exactly one uuid whatever happens; when the
  image decodes and encodes it writes exactly one file, at
  \<open>uploads/<uuid>.<ext>\<close> with the client's extension, holding the JPEG
  encoding of the bounded image, and returns that path; when decoding or encoding
  fails it raises that error and leaves the files as they were.\<close>

theorem save_file_effect:
  "save_file env f w =
     (let w1 = w\<lparr>uuid_count := Suc (uuid_count w)\<rparr>;
          p = upload_path (uuid_hex w (uuid_count w)) (stored_ext (secure_filename env (filename f)))
      in case open_image env (content f) of
           Inl e \<Rightarrow> (Inl e, w1)
         | Inr img \<Rightarrow>
             (case encode_image env 85 (bound_size env img) of
                Inl e \<Rightarrow> (Inl e, w1)
              | Inr b \<Rightarrow> (Inr p, w1\<lparr>files := (files w)(p \<mapsto> b)\<rparr>)))"
  by (rule save_file_eq)

lemma save_file_writes:
  "save_file env f w = (r, w1) \<Longrightarrow>
     uuid_hex w1 = uuid_hex w \<and> uuid_count w1 = Suc (uuid_count w) \<and>
     (\<forall>p. files w1 p \<noteq> files w p \<longrightarrow> r = Inr p)"
  by (auto simp: save_file_eq Let_def split: sum.splits if_splits)

text \<open>C23: the image that is stored is never larger than 1200 pixels on its
  longer side, provided the library's \<^verbatim>\<open>thumbnail\<close> fits the image into the
  box it is given; an image already within the bound is stored as decoded.\<close>

theorem bound_size_le:
  assumes "\<forall>i. max (img_width (thumbnail env (MAX_DIM, MAX_DIM) i))
                  (img_height (thumbnail env (MAX_DIM, MAX_DIM) i)) \<le> MAX_DIM"
  shows "max (img_width (bound_size env img)) (img_height (bound_size env img)) \<le> MAX_DIM
         \<and> (max (img_width img) (img_height img) \<le> MAX_DIM \<longrightarrow> bound_size env img = img)"
proof -
  have "max (img_width (bound_size env img)) (img_height (bound_size env img)) \<le> MAX_DIM"
  proof (cases "MAX_DIM < max (img_width img) (img_height img)")
    case True
    then show ?thesis using assms by (simp add: bound_size_def)
  next
    case False
    then have "bound_size env img = img" by (simp add: bound_size_def)
    with False show ?thesis by (simp add: not_less)
  qed
  moreover have "max (img_width img) (img_height img) \<le> MAX_DIM \<longrightarrow> bound_size env img = img"
    by (auto simp: bound_size_def max_def)
  ultimately show ?thesis by blast
qed

theorem bound_size_le_witness:
  "(\<forall>i. max (img_width (thumbnail demo_env (MAX_DIM, MAX_DIM) i))
          (img_height (thumbnail demo_env (MAX_DIM, MAX_DIM) i)) \<le> MAX_DIM) \<and>
   max (img_width (bound_size demo_env [replicate 1300 (0, 0, 0)]))
       (img_height (bound_size demo_env [replicate 1300 (0, 0, 0)])) \<le> MAX_DIM"
proof -
  have fit: "\<forall>i. max (img_width (thumbnail demo_env (MAX_DIM, MAX_DIM) i))
          (img_height (thumbnail demo_env (MAX_DIM, MAX_DIM) i)) \<le> MAX_DIM"
  proof
    fix i :: image
    show "max (img_width (thumbnail demo_env (MAX_DIM, MAX_DIM) i))
          (img_height (thumbnail demo_env (MAX_DIM, MAX_DIM) i)) \<le> MAX_DIM"
      by (cases i) (simp_all add: demo_env_def img_width_def img_height_def MAX_DIM_def)
  qed
  show ?thesis by (rule conjI [OF fit conjunct1 [OF bound_size_le [OF fit]]])
qed

text \<open>C20: round trip of the stored name. The extension that \<^verbatim>\<open>save_file\<close>
  reads from the sanitised client file name is the one that the same parsing
  reads back from the path it returns.\<close>

theorem save_file_ext_roundtrip:
  "save_file env f w = (Inr p, w') \<Longrightarrow> ext_of p = ext_of (secure_filename env (filename f))"
  by (auto simp: save_file_eq Let_def stored_ext_upload_path split: sum.splits)

end
