(* ===== verification/FaceCrop.thy ===== *)
theory FaceCrop
  imports Runtime
begin

text \<open>
  The face localiser \<^verbatim>\<open>crop_face\<close> (src/app.py lines 40--51): the stored image
  is read back and decoded, the detector runs on it, no detection is the value
  \<open>None\<close>, otherwise the detection of largest box area (the first one among equal
  areas, as Python's \<^verbatim>\<open>max\<close> keeps it) is cropped with numpy slicing after its
  corner has been clipped to non-negative coordinates, and resized by the library.
\<close>

section \<open>Definitions\<close>

text \<open>\<^verbatim>\<open>key=lambda d: d['box'][2] * d['box'][3]\<close>\<close>

definition box_area :: "detection \<Rightarrow> int" where
  "box_area d = box_w d * box_h d"

text \<open>
  \<^verbatim>\<open>x, y = max(0, x), max(0, y); img[y:y+h, x:x+w]\<close>: the corner is clipped but
  the width and height are kept, and both slices follow Python's rules for their
  bounds.
\<close>

definition crop_box :: "image \<Rightarrow> detection \<Rightarrow> image" where
  "crop_box img d =
     (let x = max 0 (box_x d); y = max 0 (box_y d)
      in map (\<lambda>row. py_slice row x (x + box_w d)) (py_slice img y (y + box_h d)))"

definition crop_face :: "env \<Rightarrow> path \<Rightarrow> (world, image option) io" where
  "crop_face env p =
     bind_io (read_file p) (\<lambda>b.
     bind_io (lift_io (open_image env b)) (\<lambda>img.
     bind_io (lift_io (detect_faces env img)) (\<lambda>dets.
     if dets = [] then return_io None
     else bind_io (lift_io (py_max_key box_area dets)) (\<lambda>largest.
          bind_io (lift_io (face_resize env (crop_box img largest))) (\<lambda>face.
          return_io (Some face))))))"

text \<open>A rectangular image: every row has the same width.\<close>

definition rectangular :: "nat \<Rightarrow> image \<Rightarrow> bool" where
  "rectangular wd img = list_all (\<lambda>r. length r = wd) img"

section \<open>Properties\<close>

lemma crop_face_eq:
  "crop_face env p w =
     (case files w p of
        None \<Rightarrow> Inl (no_such_file p)
      | Some b \<Rightarrow>
          (case open_image env b of
             Inl e \<Rightarrow> Inl e
           | Inr img \<Rightarrow>
               (case detect_faces env img of
                  Inl e \<Rightarrow> Inl e
                | Inr dets \<Rightarrow>
                    if dets = [] then Inr None
                    else map_sum id Some
                           (face_resize env (crop_box img (first_max box_area dets))))), w)"
proof (cases "files w p")
  case None
  then show ?thesis by (simp add: crop_face_def read_file_def io_simps)
next
  case (Some b)
  show ?thesis
  proof (cases "open_image env b")
    case (Inl e)
    with Some show ?thesis by (simp add: crop_face_def read_file_def io_simps)
  next
    case (Inr img)
    show ?thesis
    proof (cases "detect_faces env img")
      case (Inl e)
      with Some Inr show ?thesis by (simp add: crop_face_def read_file_def io_simps)
    next
      case (Inr dets)
      with Some \<open>open_image env b = Inr img\<close> show ?thesis
        by (cases "face_resize env (crop_box img (first_max box_area dets))")
          (simp_all add: crop_face_def read_file_def io_simps py_max_key_first_max)
    qed
  qed
qed

text \<open>C14: \<^verbatim>\<open>crop_face\<close> only reads the world; it raises when the file is
  missing or the decoder or detector raises; with no detection it returns
  \<open>None\<close>; otherwise it returns the resized crop of the first detection of
  largest area, or the error of the resize.\<close>

theorem crop_face_result:
  "crop_face env p w =
     (case files w p of
        None \<Rightarrow> Inl (no_such_file p)
      | Some b \<Rightarrow>
          (case open_image env b of
             Inl e \<Rightarrow> Inl e
           | Inr img \<Rightarrow>
               (case detect_faces env img of
                  Inl e \<Rightarrow> Inl e
                | Inr dets \<Rightarrow>
                    if dets = [] then Inr None
                    else map_sum id Some
                           (face_resize env (crop_box img (first_max box_area dets))))), w)"
  by (rule crop_face_eq)

lemma crop_face_world: "crop_face env p w = (r, w') \<Longrightarrow> w' = w"
  using crop_face_eq [of env p w] by simp

lemma crop_face_same_file:
  "files w' p = files w p \<Longrightarrow> crop_face env p w = (r, w) \<Longrightarrow> crop_face env p w' = (r, w')"
  by (simp add: crop_face_eq)

lemma py_slice_rect:
  assumes "0 \<le> lo" "0 \<le> n" "lo + n \<le> int (length xs)"
  shows "py_slice xs lo (lo + n) = take (nat n) (drop (nat lo) xs)"
  using assms by (simp add: py_slice_in_range nat_add_distrib)

text \<open>C24: when the detected box lies inside a rectangular image, the crop is
  exactly the box: its rows \<open>y .. y+h-1\<close>, each cut to the columns
  \<open>x .. x+w-1\<close>, so it has \<open>h\<close> rows of \<open>w\<close> pixels.\<close>

theorem crop_box_inside:
  assumes rect: "rectangular wd img"
    and "0 \<le> box_x d" "0 \<le> box_y d" "0 \<le> box_w d" "0 \<le> box_h d"
    and "box_x d + box_w d \<le> int wd" "box_y d + box_h d \<le> int (length img)"
  shows "crop_box img d =
           map (\<lambda>r. take (nat (box_w d)) (drop (nat (box_x d)) r))
               (take (nat (box_h d)) (drop (nat (box_y d)) img))
         \<and> length (crop_box img d) = nat (box_h d)
         \<and> rectangular (nat (box_w d)) (crop_box img d)"
proof -
  have rows: "py_slice img (box_y d) (box_y d + box_h d) = take (nat (box_h d)) (drop (nat (box_y d)) img)"
    using assms by (intro py_slice_rect) simp_all
  have cols: "py_slice r (box_x d) (box_x d + box_w d) = take (nat (box_w d)) (drop (nat (box_x d)) r)"
    if "r \<in> set img" for r
    using assms that by (intro py_slice_rect) (simp_all add: rectangular_def list_all_iff)
  have eq: "crop_box img d =
           map (\<lambda>r. take (nat (box_w d)) (drop (nat (box_x d)) r))
               (take (nat (box_h d)) (drop (nat (box_y d)) img))"
    unfolding crop_box_def Let_def using assms(2,3) rows
    by (auto intro!: map_cong cols dest: in_set_takeD in_set_dropD)
  moreover have "length (crop_box img d) = nat (box_h d)"
    using assms eq by simp
  moreover have "rectangular (nat (box_w d)) (crop_box img d)"
    using assms eq by (auto simp: rectangular_def list_all_iff dest!: in_set_takeD in_set_dropD)
  ultimately show ?thesis by blast
qed

text \<open>C25: a box that sticks out to the left of the image is not trimmed but
  shifted: \<open>x\<close> is clipped to 0 while the width is kept, so the crop takes the
  first \<open>w\<close> columns of every selected row, \<open>-x\<close> columns more to the right than
  the detected box covers.\<close>

theorem crop_box_left_clipped:
  assumes "box_x d < 0" "0 \<le> box_w d"
  shows "crop_box img d =
           map (take (nat (box_w d))) (py_slice img (max 0 (box_y d)) (max 0 (box_y d) + box_h d))"
  using assms by (simp add: crop_box_def Let_def py_slice_prefix)

end
