(* ===== verification/Scorer.thy ===== *)
theory Scorer
  imports FaceCrop
begin

text \<open>
  The similarity scorer and the candidate loop of \<^verbatim>\<open>verify\<close> (src/app.py lines
  83--129): for each candidate path, in submission order, the face is cropped; a
  candidate without a face gets an error entry; otherwise both faces are saved to
  temporary JPEG files named by two fresh uuids, \<^verbatim>\<open>DeepFace.verify\<close> compares
  them under \<^verbatim>\<open>try/except Exception\<close>, the distance is classified against the
  threshold 0.55, and the \<^verbatim>\<open>finally\<close> block removes both temporary files. The two
  \<^verbatim>\<open>save\<close> calls are outside the \<^verbatim>\<open>try\<close>, as in the source. The
  theory also holds the abstract per-candidate specification \<open>spec_results\<close>, the
  elimination rule \<open>cand_loop_stepE\<close> for one step of the loop that the loop's
  inductions share, and the refinement of the loop against the specification.
\<close>

section \<open>Definitions\<close>

text \<open>\<^verbatim>\<open>f"img{i}"\<close>\<close>

definition field_name :: "nat \<Rightarrow> string" where
  "field_name i = ''img'' @ dec_str i"

text \<open>\<^verbatim>\<open>os.path.join(UPLOAD_FOLDER, f"tmp_selfie_{uuid}.jpg")\<close> and its candidate twin.\<close>

definition tmp_path :: "string \<Rightarrow> string \<Rightarrow> path" where
  "tmp_path pre h = os_path_join UPLOAD_FOLDER (pre @ h @ ''.jpg'')"

text \<open>\<^verbatim>\<open>DeepFace.verify(img1_path=.., img2_path=.., model_name="ArcFace",
  enforce_detection=False)\<close> reads the two files.\<close>

definition deepface_files :: "env \<Rightarrow> path \<Rightarrow> path \<Rightarrow> (world, vresult) io" where
  "deepface_files env p1 p2 w = (deepface_verify env (files w p1) (files w p2), w)"

text \<open>Lines 107--116: \<^verbatim>\<open>match = False if distance is None else distance <= CUSTOM_THRESHOLD\<close>.\<close>

definition score_result :: "nat \<Rightarrow> vresult \<Rightarrow> cand_result" where
  "score_result i res =
     (let d = v_distance res;
          m = (case d of None \<Rightarrow> False | Some x \<Rightarrow> x \<le> CUSTOM_THRESHOLD)
      in Scored (field_name i) m d CUSTOM_THRESHOLD (v_model res))"

definition no_face_result :: "nat \<Rightarrow> cand_result" where
  "no_face_result i = Failed (field_name i) ''No face detected in candidate image''"

text \<open>Lines 95--127, for a candidate with a face.\<close>

definition score_pair :: "env \<Rightarrow> nat \<Rightarrow> image \<Rightarrow> image \<Rightarrow> (world, cand_result) io" where
  "score_pair env i sf cf =
     bind_io uuid4_hex (\<lambda>h1. let tsp = tmp_path ''tmp_selfie_'' h1 in
     bind_io uuid4_hex (\<lambda>h2. let tcp = tmp_path ''tmp_candidate_'' h2 in
     bind_io (pil_save env 75 sf tsp) (\<lambda>_.
     bind_io (pil_save env 75 cf tcp) (\<lambda>_.
     try_finally
       (try_except
          (bind_io (deepface_files env tsp tcp) (\<lambda>res. return_io (score_result i res)))
          (\<lambda>e. return_io (Failed (field_name i) (exn_msg e))))
       (bind_io (os_remove tsp) (\<lambda>_. os_remove tcp))))))"

text \<open>The loop of lines 84--127: \<open>i\<close> is the index of \<^verbatim>\<open>enumerate(.., start=1)\<close>
  and \<open>acc\<close> the list \<^verbatim>\<open>results\<close>.\<close>

fun cand_loop ::
  "env \<Rightarrow> image \<Rightarrow> nat \<Rightarrow> path list \<Rightarrow> cand_result list \<Rightarrow> (world, cand_result list) io"
where
  "cand_loop env sf i [] acc = return_io acc"
| "cand_loop env sf i (p # ps) acc =
     bind_io (crop_face env p) (\<lambda>cf.
       case cf of
         None \<Rightarrow> cand_loop env sf (Suc i) ps (acc @ [no_face_result i])
       | Some c \<Rightarrow> bind_io (score_pair env i sf c) (\<lambda>r. cand_loop env sf (Suc i) ps (acc @ [r])))"

text \<open>\<^verbatim>\<open>final_decision = any(r.get("match") for r in results)\<close>\<close>

definition final_decision :: "cand_result list \<Rightarrow> bool" where
  "final_decision rs = list_ex result_match rs"

section \<open>Abstract specification of the candidate loop\<close>

text \<open>
  What spec section 4 asks of one candidate, given the crop of its face (or
  \<open>None\<close>) and a verifier \<open>vf\<close> on two crops: a candidate without a face gets the
  no-face entry, a verifier failure becomes an error entry, otherwise the distance
  is classified. The loop's results are these entries for the candidates in
  order, numbered from \<open>i\<close>.
\<close>

definition spec_entry :: "(image \<Rightarrow> image \<Rightarrow> exn + vresult) \<Rightarrow> image \<Rightarrow> nat \<Rightarrow> image option \<Rightarrow> cand_result" where
  "spec_entry vf sf i co =
     (case co of
        None \<Rightarrow> no_face_result i
      | Some c \<Rightarrow> (case vf sf c of Inl e \<Rightarrow> Failed (field_name i) (exn_msg e) | Inr res \<Rightarrow> score_result i res))"

definition spec_results :: "(image \<Rightarrow> image \<Rightarrow> exn + vresult) \<Rightarrow> image \<Rightarrow> nat \<Rightarrow> image option list \<Rightarrow> cand_result list" where
  "spec_results vf sf i cs = map (\<lambda>(k, c). spec_entry vf sf k c) (zip [i..<i + length cs] cs)"

text \<open>The temporary paths that \<open>n\<close> scoring steps may use, drawing from uuid
  number \<open>k\<close> on.\<close>

fun tmp_names :: "(nat \<Rightarrow> string) \<Rightarrow> nat \<Rightarrow> nat \<Rightarrow> path list" where
  "tmp_names u k 0 = []"
| "tmp_names u k (Suc n) =
     tmp_path ''tmp_selfie_'' (u k) # tmp_path ''tmp_candidate_'' (u (Suc k)) # tmp_names u (Suc (Suc k)) n"

section \<open>Properties\<close>

lemma tmp_path_eq:
  "tmp_path pre h = ''uploads/'' @ pre @ h @ ''.jpg''"
  if "pre \<noteq> []" "hd pre \<noteq> CHR ''/''"
  using that by (cases pre) (simp_all add: tmp_path_def os_path_join_def UPLOAD_FOLDER_def)

lemma tmp_paths_differ [simp]:
  "tmp_path ''tmp_selfie_'' h1 \<noteq> tmp_path ''tmp_candidate_'' h2"
  "tmp_path ''tmp_candidate_'' h2 \<noteq> tmp_path ''tmp_selfie_'' h1"
  by (simp_all add: tmp_path_eq)

text \<open>C13: a distance is a match exactly when it is present and at most 0.55;
  the entry always reports the threshold and the model of the verifier.\<close>

theorem score_result_match:
  "(result_match (score_result i res) \<longleftrightarrow> (\<exists>d. v_distance res = Some d \<and> d \<le> 0.55))
   \<and> cr_threshold (score_result i res) = 0.55 \<and> cr_model (score_result i res) = v_model res
   \<and> cr_field (score_result i res) = field_name i"
  by (cases "v_distance res") (simp_all add: score_result_def CUSTOM_THRESHOLD_def)

lemma score_pair_eq:
  "score_pair env i sf cf w =
     (let n = uuid_count w;
          tsp = tmp_path ''tmp_selfie_'' (uuid_hex w n);
          tcp = tmp_path ''tmp_candidate_'' (uuid_hex w (Suc n));
          w2 = w\<lparr>uuid_count := Suc (Suc n)\<rparr>
      in case encode_image env 75 sf of
           Inl e \<Rightarrow> (Inl e, w2)
         | Inr b1 \<Rightarrow>
             (case encode_image env 75 cf of
                Inl e \<Rightarrow> (Inl e, w2\<lparr>files := (files w)(tsp \<mapsto> b1)\<rparr>)
              | Inr b2 \<Rightarrow>
                  (Inr (case deepface_verify env (Some b1) (Some b2) of
                          Inl e \<Rightarrow> Failed (field_name i) (exn_msg e)
                        | Inr res \<Rightarrow> score_result i res),
                   w2\<lparr>files := (files w)(tsp := None, tcp := None)\<rparr>)))"
proof (cases "encode_image env 75 sf")
  case (Inl e)
  then show ?thesis by (simp add: score_pair_def uuid4_hex_def pil_save_cases io_simps Let_def)
next
  case (Inr b1)
  show ?thesis
  proof (cases "encode_image env 75 cf")
    case (Inl e)
    with \<open>encode_image env 75 sf = Inr b1\<close> show ?thesis
      by (simp add: score_pair_def uuid4_hex_def pil_save_cases io_simps Let_def)
  next
    case (Inr b2)
    with \<open>encode_image env 75 sf = Inr b1\<close> show ?thesis
      by (simp add: score_pair_def uuid4_hex_def pil_save_cases io_simps Let_def
          deepface_files_def os_remove_def fun_upd_twist split: sum.splits)
  qed
qed

text \<open>C11: one scoring step draws two uuids and saves the selfie crop, then the
  candidate crop. If the candidate crop cannot be saved the exception escapes and
  the selfie's temporary file stays on disk (the save is outside the
  \<^verbatim>\<open>try\<close>). Otherwise the verifier sees exactly the two encoded crops, an
  exception of the verifier becomes an error entry, and both temporary files are
  removed.\<close>

theorem score_pair_effect:
  "score_pair env i sf cf w =
     (let n = uuid_count w;
          tsp = tmp_path ''tmp_selfie_'' (uuid_hex w n);
          tcp = tmp_path ''tmp_candidate_'' (uuid_hex w (Suc n));
          w2 = w\<lparr>uuid_count := Suc (Suc n)\<rparr>
      in case encode_image env 75 sf of
           Inl e \<Rightarrow> (Inl e, w2)
         | Inr b1 \<Rightarrow>
             (case encode_image env 75 cf of
                Inl e \<Rightarrow> (Inl e, w2\<lparr>files := (files w)(tsp \<mapsto> b1)\<rparr>)
              | Inr b2 \<Rightarrow>
                  (Inr (case deepface_verify env (Some b1) (Some b2) of
                          Inl e \<Rightarrow> Failed (field_name i) (exn_msg e)
                        | Inr res \<Rightarrow> score_result i res),
                   w2\<lparr>files := (files w)(tsp := None, tcp := None)\<rparr>)))"
  by (rule score_pair_eq)

text \<open>Every face the source saves encodes: the library condition under which the
  temporary files never outlive a scoring step.\<close>

lemma score_pair_uuid:
  "score_pair env i sf cf w = (r, w') \<Longrightarrow>
     uuid_hex w' = uuid_hex w \<and> uuid_count w' = Suc (Suc (uuid_count w))"
  by (auto simp: score_pair_eq Let_def split: sum.splits)

lemma score_pair_deletes:
  assumes enc: "\<forall>img. \<exists>b. encode_image env 75 img = Inr b"
    and run: "score_pair env i sf cf w = (r, w')"
  shows "only_deletes w w'"
proof -
  obtain b1 b2 where b1: "encode_image env 75 sf = Inr b1" and b2: "encode_image env 75 cf = Inr b2"
    using enc by metis
  show ?thesis using run b1 b2 by (auto simp: score_pair_eq Let_def)
qed

lemma cand_loop_face_step:
  "crop_face env p w = (Inr (Some c), w) \<Longrightarrow> score_pair env i sf c w = (Inr r, w') \<Longrightarrow>
     cand_loop env sf i (p # ps) acc w = cand_loop env sf (Suc i) ps (acc @ [r]) w'"
  by (simp add: bind_io_def)

lemma cand_loop_no_face_step:
  "crop_face env p w = (Inr None, w) \<Longrightarrow>
     cand_loop env sf i (p # ps) acc w = cand_loop env sf (Suc i) ps (acc @ [no_face_result i]) w"
  by (simp add: bind_io_def)

lemma cand_loop_raise_step:
  "crop_face env p w = (Inr (Some c), w) \<Longrightarrow> score_pair env i sf c w = (Inl e, w') \<Longrightarrow>
     cand_loop env sf i (p # ps) acc w = (Inl e, w')"
  by (simp add: bind_io_def)

lemma cand_loop_stepE:
  assumes "cand_loop env sf i (p # ps) acc w = (r, w')"
  obtains (raise) e where "crop_face env p w = (Inl e, w)" "r = Inl e" "w' = w"
  | (no_face) "crop_face env p w = (Inr None, w)"
      "cand_loop env sf (Suc i) ps (acc @ [no_face_result i]) w = (r, w')"
  | (score_raise) c e w1 where "crop_face env p w = (Inr (Some c), w)" "score_pair env i sf c w = (Inl e, w1)"
      "r = Inl e" "w' = w1"
  | (scored) c rr w1 where "crop_face env p w = (Inr (Some c), w)" "score_pair env i sf c w = (Inr rr, w1)"
      "cand_loop env sf (Suc i) ps (acc @ [rr]) w1 = (r, w')"
proof -
  obtain x where cf: "crop_face env p w = (x, w)"
    using crop_face_eq [of env p w] by simp
  show thesis
  proof (cases x)
    case (Inl e)
    with assms cf show thesis by (intro raise) auto
  next
    case (Inr c)
    show thesis
    proof (cases c)
      case None
      with assms cf Inr show thesis by (intro no_face) auto
    next
      case (Some fc)
      obtain y w1 where sp: "score_pair env i sf fc w = (y, w1)" by fastforce
      show thesis
      proof (cases y)
        case (Inl e)
        with assms cf Inr Some sp show thesis by (intro score_raise [of fc e w1]) auto
      next
        case (Inr rr)
        with assms cf \<open>x = Inr c\<close> Some sp show thesis by (intro scored [of fc rr w1]) auto
      qed
    qed
  qed
qed

lemma cand_loop_uuid:
  "cand_loop env sf i ps acc w = (r, w') \<Longrightarrow>
     uuid_hex w' = uuid_hex w \<and> uuid_count w \<le> uuid_count w' \<and> uuid_count w' \<le> uuid_count w + 2 * length ps"
proof (induction ps arbitrary: i acc w)
  case Nil
  then show ?case by (simp add: return_io_def)
next
  case (Cons p ps)
  from Cons.prems show ?case
  proof (cases rule: cand_loop_stepE)
    case raise
    then show ?thesis by simp
  next
    case no_face
    from Cons.IH [OF no_face(2)] show ?thesis by simp
  next
    case (score_raise c e w1)
    with score_pair_uuid [OF score_raise(2)] show ?thesis by simp
  next
    case (scored c rr w1)
    with score_pair_uuid [OF scored(2)] Cons.IH [OF scored(3)] show ?thesis by simp
  qed
qed

lemma cand_loop_deletes:
  assumes enc: "\<forall>img. \<exists>b. encode_image env 75 img = Inr b"
  shows "cand_loop env sf i ps acc w = (r, w') \<Longrightarrow> only_deletes w w'"
proof (induction ps arbitrary: i acc w)
  case Nil
  then show ?case by (simp add: return_io_def)
next
  case (Cons p ps)
  from Cons.prems show ?case
  proof (cases rule: cand_loop_stepE)
    case raise
    then show ?thesis by simp
  next
    case no_face
    from Cons.IH [OF no_face(2)] show ?thesis .
  next
    case (score_raise c e w1)
    with score_pair_deletes [OF enc score_raise(2)] show ?thesis by simp
  next
    case (scored c rr w1)
    from score_pair_deletes [OF enc scored(2)] Cons.IH [OF scored(3)] show ?thesis
      by (rule only_deletes_trans)
  qed
qed

lemma cand_loop_fields:
  "cand_loop env sf i ps acc w = (Inr rs, w') \<Longrightarrow>
     map cr_field rs = map cr_field acc @ map field_name [i..<i + length ps]"
proof (induction ps arbitrary: i acc w)
  case Nil
  then show ?case by (simp add: return_io_def)
next
  case (Cons p ps)
  from Cons.prems show ?case
  proof (cases rule: cand_loop_stepE)
    case raise
    then show ?thesis by simp
  next
    case no_face
    from Cons.IH [OF no_face(2)] show ?thesis
      by (simp add: upt_conv_Cons no_face_result_def del: upt_Suc)
  next
    case (score_raise c e w1)
    then show ?thesis by simp
  next
    case (scored c rr w1)
    have "cr_field rr = field_name i"
      using scored(2) by (auto simp: score_pair_eq Let_def score_result_def split: sum.splits)
    with Cons.IH [OF scored(3)] show ?thesis by (simp add: upt_conv_Cons del: upt_Suc)
  qed
qed

lemma cand_loop_append:
  "cand_loop env sf i (ps @ qs) acc w =
     (case cand_loop env sf i ps acc w of
        (Inl e, w') \<Rightarrow> (Inl e, w')
      | (Inr acc', w') \<Rightarrow> cand_loop env sf (i + length ps) qs acc' w')"
proof (induction ps arbitrary: i acc w)
  case Nil
  then show ?case by (simp add: return_io_def)
next
  case (Cons p ps)
  obtain x where cf: "crop_face env p w = (x, w)"
    using crop_face_eq [of env p w] by simp
  show ?case
  proof (cases x)
    case (Inl e)
    with cf show ?thesis by simp
  next
    case (Inr c)
    show ?thesis
    proof (cases c)
      case None
      with cf Inr Cons.IH [of "Suc i" "acc @ [no_face_result i]" w] show ?thesis
        by (auto split: prod.split sum.split)
    next
      case (Some fc)
      obtain y w1 where sp: "score_pair env i sf fc w = (y, w1)" by fastforce
      with cf Inr Some Cons.IH [of "Suc i" _ w1] show ?thesis
        by (cases y) (auto split: prod.split sum.split)
    qed
  qed
qed

lemma tmp_names_mono: "set (tmp_names u k n) \<subseteq> set (tmp_names u k (Suc n))"
  by (induction n arbitrary: k) auto

lemma spec_results_Cons:
  "spec_results vf sf i (c # cs) = spec_entry vf sf i c # spec_results vf sf (Suc i) cs"
  by (simp add: spec_results_def upt_conv_Cons del: upt_Suc)

lemma cand_loop_spec:
  assumes jpeg: "\<forall>img. encode_image env 75 img = Inr (jpeg img)"
    and crops: "list_all2 (\<lambda>p c. crop_face env p w = (Inr c, w)) ps cs"
    and fresh: "set ps \<inter> set (tmp_names (uuid_hex w) (uuid_count w) (length ps)) = {}"
  shows "fst (cand_loop env sf i ps acc w) =
           Inr (acc @ spec_results (\<lambda>a b. deepface_verify env (Some (jpeg a)) (Some (jpeg b))) sf i cs)"
  using crops fresh
proof (induction ps arbitrary: cs i acc w)
  case Nil
  then show ?case by (simp add: return_io_def spec_results_def)
next
  case (Cons p ps)
  from Cons.prems(1) obtain c cs' where cs: "cs = c # cs'" and cf: "crop_face env p w = (Inr c, w)"
    and rest: "list_all2 (\<lambda>p c. crop_face env p w = (Inr c, w)) ps cs'"
    by (cases cs) auto
  have fr: "set ps \<inter> set (tmp_names (uuid_hex w) (uuid_count w) (length ps)) = {}"
    using Cons.prems(2) tmp_names_mono [of "uuid_hex w" "uuid_count w" "length ps"] by auto
  show ?case
  proof (cases c)
    case None
    then have "cand_loop env sf i (p # ps) acc w = cand_loop env sf (Suc i) ps (acc @ [no_face_result i]) w"
      using cf by (simp add: cand_loop_no_face_step)
    with Cons.IH [OF rest fr] None cs show ?thesis by (simp add: spec_results_Cons spec_entry_def)
  next
    case (Some fc)
    let ?n = "uuid_count w"
    let ?tsp = "tmp_path ''tmp_selfie_'' (uuid_hex w ?n)"
    let ?tcp = "tmp_path ''tmp_candidate_'' (uuid_hex w (Suc ?n))"
    define w1 where "w1 = w\<lparr>uuid_count := Suc (Suc ?n), files := (files w)(?tsp := None, ?tcp := None)\<rparr>"
    have sp: "score_pair env i sf fc w = (Inr (spec_entry (\<lambda>a b. deepface_verify env (Some (jpeg a)) (Some (jpeg b))) sf i (Some fc)), w1)"
      using jpeg by (simp add: score_pair_eq w1_def spec_entry_def Let_def split: sum.splits)
    have out: "p \<notin> {?tsp, ?tcp}" "\<forall>q \<in> set ps. q \<notin> {?tsp, ?tcp}"
      using Cons.prems(2) by auto
    have rest1: "list_all2 (\<lambda>p c. crop_face env p w1 = (Inr c, w1)) ps cs'"
      using rest by (rule list.rel_mono_strong) (use out(2) in \<open>auto intro: crop_face_same_file simp: w1_def\<close>)
    have fr1: "set ps \<inter> set (tmp_names (uuid_hex w1) (uuid_count w1) (length ps)) = {}"
      using Cons.prems(2) by (auto simp: w1_def)
    have "cand_loop env sf i (p # ps) acc w =
            cand_loop env sf (Suc i) ps (acc @ [spec_entry (\<lambda>a b. deepface_verify env (Some (jpeg a)) (Some (jpeg b))) sf i (Some fc)]) w1"
      using cf Some sp by (simp add: cand_loop_face_step)
    with Cons.IH [OF rest1 fr1] Some cs show ?thesis by (simp add: spec_results_Cons)
  qed
qed

text \<open>C6: refinement. When the encoder is total and no candidate path is one of
  the temporary paths the loop may draw, the candidate loop computes exactly the
  abstract results: the entries of the candidates in order, the verifier seeing
  the JPEG encodings of the two crops.\<close>

theorem cand_loop_refines:
  assumes "\<forall>img. encode_image env 75 img = Inr (jpeg img)"
    and "list_all2 (\<lambda>p c. crop_face env p w = (Inr c, w)) ps cs"
    and "set ps \<inter> set (tmp_names (uuid_hex w) (uuid_count w) (length ps)) = {}"
  shows "fst (cand_loop env sf i ps acc w) =
           Inr (acc @ spec_results (\<lambda>a b. deepface_verify env (Some (jpeg a)) (Some (jpeg b))) sf i cs)"
  using assms by (rule cand_loop_spec)

text \<open>C12: only the verifier is guarded. A candidate whose crop raises (its
  file cannot be read or decoded, the detector or the resize raises) aborts the
  whole loop with that exception, before any entry is recorded for it.\<close>

theorem cand_loop_crop_error:
  "crop_face env p w = (Inl e, w) \<Longrightarrow> cand_loop env sf i (p # ps) acc w = (Inl e, w)"
  by (simp add: bind_io_def)

end
