(* ===== verification/Handler.thy ===== *)
theory Handler
  imports Validation Storage Scorer
begin

text \<open>
  The orchestrator \<^verbatim>\<open>verify\<close> (src/app.py lines 58--141) and the routes: the
  validation loop, the loop that saves the five uploads and collects their paths,
  the selfie check, the candidate loop, the final decision, and the outer
  \<^verbatim>\<open>finally\<close> that removes every saved upload, swallowing the errors of
  \<^verbatim>\<open>os.remove\<close>; then Flask's answer to an escaping exception. The
  properties: the cleanup guarantee and its hypothesis, the frame property that a
  request changes only the paths named by its own uuids (\<open>named_by_range\<close>), the
  uuid bound, the error answers, the shape of a successful response, and the
  refinement of the request body against the abstract \<open>spec_verify\<close>.
\<close>

section \<open>Definitions\<close>

text \<open>Lines 72--74: \<open>acc\<close> is \<^verbatim>\<open>saved_paths\<close>; the loop stops at the first
  exception and the paths saved so far stay known to the \<^verbatim>\<open>finally\<close> block.\<close>

fun save_all ::
  "env \<Rightarrow> (string \<times> upload) list \<Rightarrow> path list \<Rightarrow> world \<Rightarrow> (exn option \<times> path list) \<times> world"
where
  "save_all env [] acc w = ((None, acc), w)"
| "save_all env ((k, f) # fs) acc w =
     (case save_file env f w of
        (Inl e, w') \<Rightarrow> ((Some e, acc), w')
      | (Inr p, w') \<Rightarrow> save_all env fs (acc @ [p]) w')"

text \<open>Lines 137--141: \<^verbatim>\<open>for p in saved_paths: try: os.remove(p) except: pass\<close>\<close>

fun cleanup :: "path list \<Rightarrow> world \<Rightarrow> world" where
  "cleanup [] w = w"
| "cleanup (p # ps) w = cleanup ps (snd (try_except (os_remove p) (\<lambda>_. return_io ()) w))"

definition no_selfie_face :: response where
  "no_selfie_face = Json_error 400 ''No face detected in selfie''"

text \<open>Lines 76--134, the body of the \<^verbatim>\<open>try\<close> after the save loop.\<close>

definition process :: "env \<Rightarrow> path list \<Rightarrow> (world, response) io" where
  "process env saved =
     bind_io (lift_io (py_index saved 0)) (\<lambda>selfie_path.
     let candidate_paths = drop 1 saved in
     bind_io (crop_face env selfie_path) (\<lambda>sf.
       case sf of
         None \<Rightarrow> return_io no_selfie_face
       | Some s \<Rightarrow>
           bind_io (cand_loop env s 1 candidate_paths []) (\<lambda>results.
           return_io (Json_results results (final_decision results)))))"

text \<open>Lines 70--141: \<^verbatim>\<open>try: save loop; process finally: cleanup\<close>.\<close>

definition verify_body :: "env \<Rightarrow> (string \<times> upload) list \<Rightarrow> (world, response) io" where
  "verify_body env fs w =
     (case save_all env fs [] w of
        ((err, saved), w1) \<Rightarrow>
          (case (case err of Some e \<Rightarrow> (Inl e, w1) | None \<Rightarrow> process env saved w1) of
             (r, w2) \<Rightarrow> (r, cleanup saved w2)))"

definition verify :: "env \<Rightarrow> request \<Rightarrow> (world, response) io" where
  "verify env req w =
     (case validate_fields req expected_fields [] of
        Inl e \<Rightarrow> (Inl e, w)
      | Inr (Inl resp) \<Rightarrow> (Inr resp, w)
      | Inr (Inr fs) \<Rightarrow> verify_body env fs w)"

text \<open>Lines 54--56.\<close>

definition home :: response where
  "home = Text_response ''Face API running. POST /verify with 5 images (selfie + 4).''"

text \<open>Flask's answer to an exception that leaves a view: werkzeug's 413 for an
  oversized body, 500 for any other exception.\<close>

definition flask_response :: "exn + response \<Rightarrow> response" where
  "flask_response r =
     (case r of
        Inr resp \<Rightarrow> resp
      | Inl e \<Rightarrow> (if exn_class e = RequestEntityTooLarge then Http_error 413 else Http_error 500))"

text \<open>The two routes (lines 54 and 58). Werkzeug's routing adds \<^verbatim>\<open>HEAD\<close> to a
  \<^verbatim>\<open>GET\<close> route and Flask answers \<^verbatim>\<open>OPTIONS\<close> on every route with the
  allowed methods; any other method is 405, any other path 404.\<close>

definition dispatch :: "env \<Rightarrow> string \<Rightarrow> string \<Rightarrow> request \<Rightarrow> world \<Rightarrow> response \<times> world" where
  "dispatch env meth route req w =
     (if route = ''/'' then
        (if meth = ''GET'' \<or> meth = ''HEAD'' then (home, w)
         else if meth = ''OPTIONS'' then (Allow_response [''GET'', ''HEAD'', ''OPTIONS''], w)
         else (Http_error 405, w))
      else if route = ''/verify'' then
        (if meth = ''POST'' then (case verify env req w of (r, w') \<Rightarrow> (flask_response r, w'))
         else if meth = ''OPTIONS'' then (Allow_response [''OPTIONS'', ''POST''], w)
         else (Http_error 405, w))
      else (Http_error 404, w))"

text \<open>The abstract specification of a request whose uploads are stored (spec
  sections 4 and 6): no face in the selfie is the 400 answer, otherwise the
  results of the candidates in order and their disjunction.\<close>

definition spec_verify :: "(image \<Rightarrow> image \<Rightarrow> exn + vresult) \<Rightarrow> image option \<Rightarrow> image option list \<Rightarrow> response" where
  "spec_verify vf so cs =
     (case so of
        None \<Rightarrow> no_selfie_face
      | Some s \<Rightarrow> (let rs = spec_results vf s 1 cs in Json_results rs (list_ex result_match rs)))"

text \<open>The paths the code builds from the uuid \<open>h\<close> with its own helpers: a stored
  upload (\<open>upload_path\<close>) for any extension, and the two temporary crops
  (\<open>tmp_path\<close>); and the paths so built from the uuids number \<open>lo\<close> to \<open>hi - 1\<close>
  of the generator \<open>u\<close>.\<close>

definition named_by :: "string \<Rightarrow> path \<Rightarrow> bool" where
  "named_by h p \<longleftrightarrow>
     prefix (upload_path h []) p \<or> p = tmp_path ''tmp_selfie_'' h \<or> p = tmp_path ''tmp_candidate_'' h"

definition named_by_range :: "(nat \<Rightarrow> string) \<Rightarrow> nat \<Rightarrow> nat \<Rightarrow> path \<Rightarrow> bool" where
  "named_by_range u lo hi p \<longleftrightarrow> list_ex (\<lambda>k. named_by (u k) p) [lo..<hi]"

text \<open>The names spec section 7 relies on, written out independently of the code's
  helpers: a path carries the uuid \<open>h\<close> when it is \<^verbatim>\<open>uploads/<h>.<anything>\<close>,
  \<^verbatim>\<open>uploads/tmp_selfie_<h>.jpg\<close> or \<^verbatim>\<open>uploads/tmp_candidate_<h>.jpg\<close>;
  \<open>drawn_names u lo hi p\<close>: \<open>p\<close> carries one of the uuids number \<open>lo\<close> to
  \<open>hi - 1\<close>.\<close>

definition own_name :: "string \<Rightarrow> path \<Rightarrow> bool" where
  "own_name h p \<longleftrightarrow>
     prefix (''uploads/'' @ h @ ''.'') p \<or> p = ''uploads/'' @ ''tmp_selfie_'' @ h @ ''.jpg''
     \<or> p = ''uploads/'' @ ''tmp_candidate_'' @ h @ ''.jpg''"

definition drawn_names :: "(nat \<Rightarrow> string) \<Rightarrow> nat \<Rightarrow> nat \<Rightarrow> path \<Rightarrow> bool" where
  "drawn_names u lo hi p \<longleftrightarrow> list_ex (\<lambda>k. own_name (u k) p) [lo..<hi]"

section \<open>Lemmas on the loops\<close>

lemma save_all_writes:
  "save_all env fs acc w = ((err, saved), w1) \<Longrightarrow>
     set acc \<subseteq> set saved \<and> (\<forall>p. files w1 p \<noteq> files w p \<longrightarrow> p \<in> set saved) \<and>
     uuid_hex w1 = uuid_hex w \<and> uuid_count w \<le> uuid_count w1 \<and> uuid_count w1 \<le> uuid_count w + length fs \<and>
     (err = None \<longrightarrow> length saved = length acc + length fs)"
proof (induction env fs acc w rule: save_all.induct)
  case (1 env acc w)
  then show ?case by simp
next
  case (2 env k f fs acc w)
  obtain r w' where sf: "save_file env f w = (r, w')" by fastforce
  then have step: "uuid_hex w' = uuid_hex w \<and> uuid_count w' = Suc (uuid_count w) \<and>
      (\<forall>p. files w' p \<noteq> files w p \<longrightarrow> r = Inr p)"
    by (rule save_file_writes)
  show ?case
  proof (cases r)
    case (Inl e)
    with "2.prems" sf step show ?thesis by auto
  next
    case (Inr p)
    with "2.prems" sf have rest: "save_all env fs (acc @ [p]) w' = ((err, saved), w1)" by simp
    from "2.IH" [OF sf [symmetric] Inr rest] step Inr show ?thesis by (auto; metis)
  qed
qed

lemma cleanup_files:
  "files (cleanup ps w) = (\<lambda>p. if p \<in> set ps then None else files w p) \<and>
   uuid_hex (cleanup ps w) = uuid_hex w \<and> uuid_count (cleanup ps w) = uuid_count w"
proof (induction ps arbitrary: w)
  case Nil
  then show ?case by simp
next
  case (Cons p ps)
  have "files (snd (try_except (os_remove p) (\<lambda>_. return_io ()) w)) = (files w)(p := None)
        \<and> uuid_hex (snd (try_except (os_remove p) (\<lambda>_. return_io ()) w)) = uuid_hex w
        \<and> uuid_count (snd (try_except (os_remove p) (\<lambda>_. return_io ()) w)) = uuid_count w"
    by (auto simp: os_remove_def try_except_def return_io_def split: option.splits)
  with Cons.IH show ?case by (auto simp: fun_eq_iff)
qed

lemma process_effect:
  "process env saved w = (r, w') \<Longrightarrow>
     uuid_hex w' = uuid_hex w \<and> uuid_count w \<le> uuid_count w' \<and>
     uuid_count w' \<le> uuid_count w + 2 * (length saved - 1) \<and>
     ((\<forall>img. \<exists>b. encode_image env 75 img = Inr b) \<longrightarrow> only_deletes w w')"
proof (cases saved)
  case Nil
  then show "process env saved w = (r, w') \<Longrightarrow> ?thesis"
    by (simp add: process_def py_index_def io_simps)
next
  case (Cons sp cps)
  assume run: "process env saved w = (r, w')"
  obtain x where cf: "crop_face env sp w = (x, w)"
    using crop_face_eq [of env sp w] by simp
  show ?thesis
  proof (cases x)
    case (Inl e)
    with run Cons cf show ?thesis by (simp add: process_def py_index_def io_simps)
  next
    case (Inr c)
    show ?thesis
    proof (cases c)
      case None
      with run Cons cf Inr show ?thesis by (simp add: process_def py_index_def io_simps)
    next
      case (Some s)
      obtain y w1 where cl: "cand_loop env s 1 cps [] w = (y, w1)" by fastforce
      with run Cons cf Inr Some have "w' = w1"
        by (auto simp: process_def py_index_def io_simps Let_def split: sum.splits)
      with cl cand_loop_uuid [OF cl] cand_loop_deletes [of env s 1 cps "[]" w y w1] Cons
      show ?thesis by auto
    qed
  qed
qed

lemma validate_fields_length:
  "validate_fields r ks acc = Inr (Inr fs) \<Longrightarrow> length fs = length acc + length ks"
  by (induction r ks acc rule: validate_fields.induct)
    (auto split: sum.splits option.splits if_splits bool.splits)

lemma validate_fields_error:
  "validate_fields r ks acc = Inr (Inl resp) \<Longrightarrow> \<exists>k. resp = missing_field k \<or> resp = invalid_field k"
  by (induction r ks acc rule: validate_fields.induct)
    (auto split: sum.splits option.splits if_splits bool.splits)

lemma process_results:
  "process env saved w = (Inr (Json_results rs d), w') \<Longrightarrow>
     d = final_decision rs \<and> (\<exists>s. cand_loop env s 1 (drop 1 saved) [] w = (Inr rs, w'))"
proof (cases saved)
  case Nil
  then show "process env saved w = (Inr (Json_results rs d), w') \<Longrightarrow> ?thesis"
    by (simp add: process_def py_index_def io_simps)
next
  case (Cons sp cps)
  assume run: "process env saved w = (Inr (Json_results rs d), w')"
  obtain x where cf: "crop_face env sp w = (x, w)"
    using crop_face_eq [of env sp w] by simp
  show ?thesis
    using run Cons cf
    by (auto simp: process_def py_index_def io_simps no_selfie_face_def
        split: sum.splits option.splits prod.splits)
qed

lemma verify_body_cases:
  assumes "verify_body env fs w = (r, w')"
  obtains err saved w1 r2 w2 where "save_all env fs [] w = ((err, saved), w1)"
    and "(case err of Some e \<Rightarrow> (Inl e, w1) | None \<Rightarrow> process env saved w1) = (r2, w2)"
    and "r = r2" and "w' = cleanup saved w2"
  using assms by (auto simp: verify_body_def split: prod.splits)

lemma named_by_range_iff: "named_by_range u lo hi p \<longleftrightarrow> (\<exists>k. lo \<le> k \<and> k < hi \<and> named_by (u k) p)"
  by (auto simp: named_by_range_def list_ex_iff)

lemma named_by_range_mono:
  "named_by_range u lo hi p \<Longrightarrow> lo' \<le> lo \<Longrightarrow> hi \<le> hi' \<Longrightarrow> named_by_range u lo' hi' p"
  unfolding named_by_range_iff by (meson le_trans less_le_trans)

lemma named_by_range_at:
  "lo \<le> k \<Longrightarrow> k < hi \<Longrightarrow> named_by (u k) p \<Longrightarrow> named_by_range u lo hi p"
  unfolding named_by_range_iff by blast

lemma named_by_own_name:
  assumes rel: "h = [] \<or> hd h \<noteq> CHR ''/''" and n: "named_by h p"
  shows "own_name h p"
proof -
  have u: "upload_path h [] = ''uploads/'' @ h @ ''.'' @ []" by (rule upload_path_eq [OF rel])
  have t1: "tmp_path ''tmp_selfie_'' h = ''uploads/'' @ ''tmp_selfie_'' @ h @ ''.jpg''"
    by (rule tmp_path_eq) simp_all
  have t2: "tmp_path ''tmp_candidate_'' h = ''uploads/'' @ ''tmp_candidate_'' @ h @ ''.jpg''"
    by (rule tmp_path_eq) simp_all
  from n show ?thesis unfolding named_by_def own_name_def u t1 t2 append_Nil2 .
qed

lemma named_by_range_drawn:
  assumes rel: "\<forall>n. u n = [] \<or> hd (u n) \<noteq> CHR ''/''" and n: "named_by_range u lo hi p"
  shows "drawn_names u lo hi p"
proof -
  from n obtain k where k: "lo \<le> k" "k < hi" "named_by (u k) p" by (auto simp: named_by_range_iff)
  have "own_name (u k) p" by (rule named_by_own_name [OF rel [rule_format, of k] k(3)])
  with k(1,2) show ?thesis unfolding drawn_names_def list_ex_iff by auto
qed

lemma own_name_confined:
  assumes "own_name h p" shows "prefix ''uploads/'' p"
  using assms unfolding own_name_def
proof (elim disjE)
  assume "prefix (''uploads/'' @ h @ ''.'') p"
  then show ?thesis by (rule append_prefixD)
next
  assume "p = ''uploads/'' @ ''tmp_selfie_'' @ h @ ''.jpg''"
  then show ?thesis by (rule prefixI)
next
  assume "p = ''uploads/'' @ ''tmp_candidate_'' @ h @ ''.jpg''"
  then show ?thesis by (rule prefixI)
qed

lemma score_pair_names:
  assumes "score_pair env i sf c w = (y, w1)" and "files w1 q \<noteq> files w q"
  shows "named_by_range (uuid_hex w) (uuid_count w) (uuid_count w1) q"
proof -
  have "q = tmp_path ''tmp_selfie_'' (uuid_hex w (uuid_count w))
        \<or> q = tmp_path ''tmp_candidate_'' (uuid_hex w (Suc (uuid_count w)))"
    using assms by (auto simp: score_pair_eq Let_def split: sum.splits if_splits)
  moreover have "uuid_count w1 = Suc (Suc (uuid_count w))"
    using score_pair_uuid [OF assms(1)] by simp
  ultimately show ?thesis
    by (auto intro: named_by_range_at [of "uuid_count w"] named_by_range_at [of _ "Suc (uuid_count w)"]
        simp: named_by_def)
qed

lemma cand_loop_names:
  "cand_loop env sf i ps acc w = (r, w') \<Longrightarrow> files w' q \<noteq> files w q \<Longrightarrow>
     named_by_range (uuid_hex w) (uuid_count w) (uuid_count w') q"
proof (induction ps arbitrary: i acc w)
  case Nil
  then show ?case by (simp add: return_io_def)
next
  case (Cons p ps)
  from Cons.prems(1) show ?case
  proof (cases rule: cand_loop_stepE)
    case raise
    with Cons.prems(2) show ?thesis by simp
  next
    case no_face
    from Cons.IH [OF no_face(2) Cons.prems(2)] show ?thesis .
  next
    case (score_raise c e w1)
    with Cons.prems(2) score_pair_names show ?thesis by blast
  next
    case (scored c rr w1)
    have u1: "uuid_hex w1 = uuid_hex w \<and> uuid_count w1 = Suc (Suc (uuid_count w))"
      using score_pair_uuid [OF scored(2)] .
    have u2: "uuid_count w1 \<le> uuid_count w'"
      using cand_loop_uuid [OF scored(3)] by simp
    show ?thesis
    proof (cases "files w1 q = files w q")
      case True
      with Cons.prems(2) have "files w' q \<noteq> files w1 q" by simp
      from Cons.IH [OF scored(3) this] u1 show ?thesis
        by (auto elim: named_by_range_mono)
    next
      case False
      from score_pair_names [OF scored(2) False] u2 show ?thesis
        by (auto elim: named_by_range_mono)
    qed
  qed
qed

lemma save_file_names:
  "save_file env f w = (Inr p, w1) \<Longrightarrow> named_by (uuid_hex w (uuid_count w)) p"
  by (auto simp: save_file_eq Let_def named_by_def upload_path_prefix split: sum.splits)

lemma save_all_names:
  "save_all env fs acc w = ((err, saved), w1) \<Longrightarrow>
     \<forall>q \<in> set saved. q \<in> set acc \<or> named_by_range (uuid_hex w) (uuid_count w) (uuid_count w1) q"
proof (induction env fs acc w rule: save_all.induct)
  case (1 env acc w)
  then show ?case by simp
next
  case (2 env k f fs acc w)
  obtain r w' where sf: "save_file env f w = (r, w')" by fastforce
  then have step: "uuid_hex w' = uuid_hex w \<and> uuid_count w' = Suc (uuid_count w)"
    using save_file_writes by blast
  show ?case
  proof (cases r)
    case (Inl e)
    with "2.prems" sf show ?thesis by simp
  next
    case (Inr p)
    with "2.prems" sf have rest: "save_all env fs (acc @ [p]) w' = ((err, saved), w1)" by simp
    have own: "named_by_range (uuid_hex w) (uuid_count w) (uuid_count w1) p"
    proof (rule named_by_range_at)
      show "uuid_count w < uuid_count w1"
        using save_all_writes [OF rest] step by simp
      show "named_by (uuid_hex w (uuid_count w)) p"
        using save_file_names sf Inr by blast
    qed simp
    show ?thesis
    proof
      fix q assume "q \<in> set saved"
      with "2.IH" [OF sf [symmetric] Inr rest] step
      have "q \<in> set (acc @ [p]) \<or> named_by_range (uuid_hex w) (Suc (uuid_count w)) (uuid_count w1) q"
        by simp
      then show "q \<in> set acc \<or> named_by_range (uuid_hex w) (uuid_count w) (uuid_count w1) q"
      proof
        assume "q \<in> set (acc @ [p])"
        then show ?thesis using own by auto
      next
        assume "named_by_range (uuid_hex w) (Suc (uuid_count w)) (uuid_count w1) q"
        then have "named_by_range (uuid_hex w) (uuid_count w) (uuid_count w1) q"
          by (rule named_by_range_mono) simp_all
        then show ?thesis ..
      qed
    qed
  qed
qed

lemma process_world:
  "process env saved w = (r, w') \<Longrightarrow> w' = w \<or> (\<exists>s y. cand_loop env s 1 (drop 1 saved) [] w = (y, w'))"
proof (cases saved)
  case Nil
  then show "process env saved w = (r, w') \<Longrightarrow> ?thesis" by (simp add: process_def py_index_def io_simps)
next
  case (Cons sp cps)
  assume run: "process env saved w = (r, w')"
  obtain x where cf: "crop_face env sp w = (x, w)"
    using crop_face_eq [of env sp w] by simp
  show ?thesis
    using run Cons cf
    by (auto simp: process_def py_index_def io_simps Let_def split: sum.splits option.splits prod.splits)
qed

lemma process_names:
  "process env saved w = (r, w') \<Longrightarrow> files w' q \<noteq> files w q \<Longrightarrow>
     named_by_range (uuid_hex w) (uuid_count w) (uuid_count w') q"
  using process_world cand_loop_names by blast

lemma verify_names:
  assumes run: "verify env req w = (r, w')" and ch: "files w' q \<noteq> files w q"
  shows "named_by_range (uuid_hex w) (uuid_count w) (uuid_count w') q"
proof (cases "validate_fields req expected_fields []")
  case (Inl e)
  with run ch show ?thesis by (simp add: verify_def)
next
  case (Inr v)
  show ?thesis
  proof (cases v)
    case (Inl resp)
    with run ch Inr show ?thesis by (simp add: verify_def)
  next
    case (Inr fs)
    with run \<open>validate_fields req expected_fields [] = Inr v\<close>
    have "verify_body env fs w = (r, w')" by (simp add: verify_def)
    then obtain err saved w1 r2 w2 where sa: "save_all env fs [] w = ((err, saved), w1)"
      and pr: "(case err of Some e \<Rightarrow> (Inl e, w1) | None \<Rightarrow> process env saved w1) = (r2, w2)"
      and fin: "w' = cleanup saved w2"
      by (rule verify_body_cases)
    have s1: "uuid_hex w1 = uuid_hex w \<and> uuid_count w \<le> uuid_count w1 \<and>
        (\<forall>p. files w1 p \<noteq> files w p \<longrightarrow> p \<in> set saved)"
      using save_all_writes [OF sa] by blast
    have named: "\<forall>p \<in> set saved. named_by_range (uuid_hex w) (uuid_count w) (uuid_count w1) p"
      using save_all_names [OF sa] by simp
    have s2: "uuid_hex w2 = uuid_hex w1 \<and> uuid_count w1 \<le> uuid_count w2 \<and>
        (\<forall>p. files w2 p \<noteq> files w1 p \<longrightarrow> named_by_range (uuid_hex w1) (uuid_count w1) (uuid_count w2) p)"
    proof (cases err)
      case None
      with pr have "process env saved w1 = (r2, w2)" by simp
      with process_effect [OF this] process_names [OF this] show ?thesis by blast
    next
      case (Some e)
      with pr show ?thesis by simp
    qed
    have s3: "uuid_count w' = uuid_count w2 \<and> (\<forall>p. files w' p \<noteq> files w2 p \<longrightarrow> p \<in> set saved)"
      using cleanup_files [of saved w2] fin by auto
    show ?thesis
    proof (cases "q \<in> set saved")
      case True
      with named s2 s3 show ?thesis by (auto elim: named_by_range_mono)
    next
      case False
      then have "files w' q = files w2 q" "files w1 q = files w q" using s1 s3 by blast+
      with ch have "files w2 q \<noteq> files w1 q" by simp
      with s1 s2 s3 show ?thesis by (auto elim: named_by_range_mono)
    qed
  qed
qed

section \<open>Properties of the handler\<close>

lemma verify_deletes_only:
  assumes enc: "\<forall>img. \<exists>b. encode_image env 75 img = Inr b"
    and run: "verify env req w = (r, w')"
  shows "only_deletes w w'"
proof (cases "validate_fields req expected_fields []")
  case (Inl e)
  with run show ?thesis by (simp add: verify_def)
next
  case (Inr v)
  show ?thesis
  proof (cases v)
    case (Inl resp)
    with run Inr show ?thesis by (simp add: verify_def)
  next
    case (Inr fs)
    with run \<open>validate_fields req expected_fields [] = Inr v\<close>
    have "verify_body env fs w = (r, w')" by (simp add: verify_def)
    then obtain err saved w1 r2 w2 where sa: "save_all env fs [] w = ((err, saved), w1)"
      and pr: "(case err of Some e \<Rightarrow> (Inl e, w1) | None \<Rightarrow> process env saved w1) = (r2, w2)"
      and fin: "w' = cleanup saved w2"
      by (rule verify_body_cases)
    have written: "\<forall>p. files w1 p \<noteq> files w p \<longrightarrow> p \<in> set saved"
      using save_all_writes [OF sa] by blast
    have mid: "only_deletes w1 w2"
      using pr enc process_effect [of env saved w1 r2 w2] by (cases err) auto
    show ?thesis
      unfolding only_deletes_def fin
    proof
      fix p
      show "files (cleanup saved w2) p = files w p \<or> files (cleanup saved w2) p = None"
      proof (cases "p \<in> set saved")
        case True
        then show ?thesis using cleanup_files [of saved w2] by simp
      next
        case False
        then have "files (cleanup saved w2) p = files w2 p" using cleanup_files [of saved w2] by simp
        moreover have "files w1 p = files w p" using written False by blast
        moreover have "files w2 p = files w1 p \<or> files w2 p = None"
          using mid by (simp add: only_deletes_def)
        ultimately show ?thesis by auto
      qed
    qed
  qed
qed

text \<open>C1: whatever the outcome of \<^verbatim>\<open>verify\<close> (a response, a validation error,
  or an exception escaping to Flask), no file it wrote survives and no file keeps
  changed contents: between the start and the end of a request the files were
  only deleted, provided the library can encode every face crop (the condition
  under which the temporary crop files cannot leak, see \<open>dispatch_leaks_selfie_crop\<close>).\<close>

theorem verify_only_deletes:
  assumes enc: "\<forall>img. \<exists>b. encode_image env 75 img = Inr b"
    and run: "verify env req w = (r, w')"
  shows "only_deletes w w'"
  using enc run by (rule verify_deletes_only)

lemma verify_uuid_frame:
  "verify env req w = (r, w') \<Longrightarrow>
     uuid_hex w' = uuid_hex w \<and> uuid_count w \<le> uuid_count w' \<and> uuid_count w' \<le> uuid_count w + 13"
proof -
  assume run: "verify env req w = (r, w')"
  show ?thesis
  proof (cases "validate_fields req expected_fields []")
    case (Inl e)
    with run show ?thesis by (simp add: verify_def)
  next
    case (Inr v)
    show ?thesis
    proof (cases v)
      case (Inl resp)
      with run Inr show ?thesis by (simp add: verify_def)
    next
      case (Inr fs)
      with \<open>validate_fields req expected_fields [] = Inr v\<close> have len: "length fs = 5"
        using validate_fields_length by (fastforce simp: expected_fields_def)
      from Inr run \<open>validate_fields req expected_fields [] = Inr v\<close>
      have "verify_body env fs w = (r, w')" by (simp add: verify_def)
      then obtain err saved w1 r2 w2 where sa: "save_all env fs [] w = ((err, saved), w1)"
        and pr: "(case err of Some e \<Rightarrow> (Inl e, w1) | None \<Rightarrow> process env saved w1) = (r2, w2)"
        and fin: "w' = cleanup saved w2"
        by (rule verify_body_cases)
      have s1: "uuid_hex w1 = uuid_hex w \<and> uuid_count w \<le> uuid_count w1 \<and> uuid_count w1 \<le> uuid_count w + 5 \<and>
                (err = None \<longrightarrow> length saved = 5)"
        using save_all_writes [OF sa] len by simp
      have s2: "uuid_hex w2 = uuid_hex w1 \<and> uuid_count w1 \<le> uuid_count w2 \<and> uuid_count w2 \<le> uuid_count w1 + 8"
      proof (cases err)
        case None
        with pr have "process env saved w1 = (r2, w2)" by simp
        from process_effect [OF this] s1 None show ?thesis by simp
      next
        case (Some e)
        with pr show ?thesis by simp
      qed
      show ?thesis using s1 s2 fin cleanup_files [of saved w2] by simp
    qed
  qed
qed

text \<open>C16: one request never changes the uuid generator and draws at most 13
  uuids: one per saved upload and two per scored candidate.\<close>

theorem verify_uuid_bound:
  "verify env req w = (r, w') \<Longrightarrow>
     uuid_hex w' = uuid_hex w \<and> uuid_count w \<le> uuid_count w' \<and> uuid_count w' \<le> uuid_count w + 13"
  by (rule verify_uuid_frame)

text \<open>C19: when the selfie has no detectable face the answer is the 400 error
  \<open>No face detected in selfie\<close>, whatever the candidate images are: no
  candidate is opened and no file is touched before the clean-up.\<close>

theorem process_no_selfie_face:
  "crop_face env sp w = (Inr None, w) \<Longrightarrow> process env (sp # cps) w = (Inr no_selfie_face, w)"
  by (simp add: process_def py_index_def io_simps)

text \<open>C17: a request body over \<^verbatim>\<open>MAX_CONTENT_LENGTH\<close> is answered 413 by the
  route, before any file is written.\<close>

theorem dispatch_too_large:
  "MAX_CONTENT_LENGTH < content_length req \<Longrightarrow>
     dispatch env ''POST'' ''/verify'' req w = (Http_error 413, w)"
  by (simp add: dispatch_def verify_def expected_fields_def files_get_def flask_response_def)

text \<open>C18: a request rejected by validation is answered with that error and
  leaves the world exactly as it was.\<close>

theorem verify_rejected:
  "validate_fields req expected_fields [] = Inr (Inl resp) \<Longrightarrow> verify env req w = (Inr resp, w)"
  by (simp add: verify_def)

text \<open>C4: a successful response lists exactly the four candidates, as img1,
  img2, img3, img4 in submission order, and its final decision is true exactly
  when one of the entries is a match.\<close>

theorem verify_results:
  assumes "verify env req w = (Inr (Json_results rs d), w')"
  shows "map cr_field rs = [''img1'', ''img2'', ''img3'', ''img4''] \<and>
         (d \<longleftrightarrow> (\<exists>x \<in> set rs. result_match x))"
proof -
  obtain fs where v: "validate_fields req expected_fields [] = Inr (Inr fs)"
    using assms validate_fields_error [of req expected_fields "[]"]
    by (auto simp: verify_def missing_field_def invalid_field_def split: sum.splits)
  then have len: "length fs = 5"
    using validate_fields_length by (fastforce simp: expected_fields_def)
  from assms v have "verify_body env fs w = (Inr (Json_results rs d), w')" by (simp add: verify_def)
  then obtain err saved w1 r2 w2 where sa: "save_all env fs [] w = ((err, saved), w1)"
    and pr: "(case err of Some e \<Rightarrow> (Inl e, w1) | None \<Rightarrow> process env saved w1) = (r2, w2)"
    and r: "Inr (Json_results rs d) = r2"
    by (rule verify_body_cases)
  have err: "err = None" using pr r by (cases err) auto
  with sa len have "length saved = 5" using save_all_writes [OF sa] by simp
  moreover from pr r err have "process env saved w1 = (Inr (Json_results rs d), w2)" by simp
  from process_results [OF this] obtain s where d: "d = final_decision rs"
    and cl: "cand_loop env s 1 (drop 1 saved) [] w1 = (Inr rs, w2)" by blast
  ultimately have "map cr_field rs = map field_name [1..<5]"
    using cand_loop_fields [OF cl] by simp
  then have "map cr_field rs = [''img1'', ''img2'', ''img3'', ''img4'']"
    by (simp add: upt_rec field_name_def)
  with d show ?thesis by (simp add: final_decision_def list_ex_iff)
qed

text \<open>C5: refinement. Under the conditions of the candidate loop's refinement,
  the body of \<^verbatim>\<open>verify\<close> after the save loop answers exactly what the
  abstract specification computes from the crops of the selfie and the
  candidates.\<close>

theorem process_refines:
  assumes jpeg: "\<forall>img. encode_image env 75 img = Inr (jpeg img)"
    and crops: "list_all2 (\<lambda>p c. crop_face env p w = (Inr c, w)) (sp # ps) (so # cs)"
    and fresh: "set ps \<inter> set (tmp_names (uuid_hex w) (uuid_count w) (length ps)) = {}"
  shows "fst (process env (sp # ps) w) =
           Inr (spec_verify (\<lambda>a b. deepface_verify env (Some (jpeg a)) (Some (jpeg b))) so cs)"
proof -
  from crops have sel: "crop_face env sp w = (Inr so, w)"
    and rest: "list_all2 (\<lambda>p c. crop_face env p w = (Inr c, w)) ps cs" by simp_all
  show ?thesis
  proof (cases so)
    case None
    with sel show ?thesis by (simp add: process_def py_index_def io_simps spec_verify_def)
  next
    case (Some s)
    obtain r w' where run: "cand_loop env s 1 ps [] w = (r, w')" by fastforce
    with cand_loop_spec [OF jpeg rest fresh, of s 1 "[]"]
    have "r = Inr (spec_results (\<lambda>a b. deepface_verify env (Some (jpeg a)) (Some (jpeg b))) s 1 cs)"
      by simp
    with Some sel run show ?thesis
      by (simp add: process_def py_index_def io_simps spec_verify_def final_decision_def Let_def
          del: cand_loop.simps)
  qed
qed

text \<open>C7: a request changes only paths named by the uuids it draws itself: its
  stored uploads and its temporary crops. Every other file, in particular every
  file of another request whose uuids differ, is left as it was, whatever the
  libraries do (spec section 7: unique names, so requests do not collide).\<close>

theorem verify_own_names:
  assumes "\<forall>n. uuid_hex w n = [] \<or> hd (uuid_hex w n) \<noteq> CHR ''/''"
    and "verify env req w = (r, w')" and "files w' q \<noteq> files w q"
  shows "drawn_names (uuid_hex w) (uuid_count w) (uuid_count w') q"
  using assms(1) verify_names [OF assms(2,3)] by (rule named_by_range_drawn)

text \<open>C2: the temporary selfie crop leaks. Whatever the libraries and the
  request, when the uploads are stored, the selfie has a face whose crop encodes,
  and the crop of some candidate (after any earlier ones were handled) cannot be
  saved, the exception escapes before the \<^verbatim>\<open>try\<close> of line 100: Flask
  answers 500 and the outer \<^verbatim>\<open>finally\<close>, which removes only the stored
  uploads, leaves \<^verbatim>\<open>tmp_selfie_<hex>.jpg\<close> on disk with the selfie crop.
  Spec sections 3, 5 and 8 say every transient crop file is removed.\<close>

theorem dispatch_leaks_selfie_crop:
  assumes v: "validate_fields req expected_fields [] = Inr (Inr fs)"
    and sa: "save_all env fs [] w = ((None, sp # cps1 @ cp # cps2), w1)"
    and sel: "crop_face env sp w1 = (Inr (Some s), w1)"
    and pre: "cand_loop env s 1 cps1 [] w1 = (Inr rs, w2)"
    and cand: "crop_face env cp w2 = (Inr (Some c), w2)"
    and e1: "encode_image env 75 s = Inr b"
    and e2: "encode_image env 75 c = Inl e"
    and cls: "exn_class e \<noteq> RequestEntityTooLarge"
    and fresh: "tmp_path ''tmp_selfie_'' (uuid_hex w2 (uuid_count w2)) \<notin> set (sp # cps1 @ cp # cps2)"
  shows "fst (dispatch env ''POST'' ''/verify'' req w) = Http_error 500
         \<and> files (snd (dispatch env ''POST'' ''/verify'' req w))
             (tmp_path ''tmp_selfie_'' (uuid_hex w2 (uuid_count w2))) = Some b"
proof -
  let ?tsp = "tmp_path ''tmp_selfie_'' (uuid_hex w2 (uuid_count w2))"
  let ?w3 = "w2\<lparr>uuid_count := Suc (Suc (uuid_count w2)), files := (files w2)(?tsp \<mapsto> b)\<rparr>"
  have sp: "score_pair env (1 + length cps1) s c w2 = (Inl e, ?w3)"
    using e1 e2 by (simp add: score_pair_eq Let_def)
  have loop: "cand_loop env s 1 (cps1 @ cp # cps2) [] w1 = (Inl e, ?w3)"
    using pre cand_loop_raise_step [OF cand sp] by (simp add: cand_loop_append del: cand_loop.simps)
  have pr: "process env (sp # cps1 @ cp # cps2) w1 = (Inl e, ?w3)"
    using sel loop by (simp add: process_def py_index_def io_simps del: cand_loop.simps)
  have "verify env req w = (Inl e, cleanup (sp # cps1 @ cp # cps2) ?w3)"
    using v sa pr by (simp add: verify_def verify_body_def del: cand_loop.simps cleanup.simps)
  moreover have "files (cleanup (sp # cps1 @ cp # cps2) ?w3) ?tsp = Some b"
    using fresh cleanup_files [of "sp # cps1 @ cp # cps2" ?w3] by simp
  ultimately show ?thesis using cls by (simp add: dispatch_def flask_response_def)
qed

end
