(* ===== verification/Server.thy ===== *)
theory Server
  imports Handler
begin

text \<open>
  The server as a state machine over the world: every request, to any route,
  with any method and body, is handled by \<^verbatim>\<open>dispatch\<close> on the current world,
  one after another (spec section 7: one worker, no state shared across requests
  but the upload folder and the uuid generator). The reachable worlds are an
  inductive set; the invariants are proved by rule induction from the
  per-request lemmas of the handler.
\<close>

section \<open>Definitions\<close>

text \<open>One request handled: \<open>serve_step env w (meth, route, req, resp) w'\<close>.\<close>

inductive serve_step ::
  "env \<Rightarrow> world \<Rightarrow> string \<times> string \<times> request \<times> response \<Rightarrow> world \<Rightarrow> bool"
where
  handle: "dispatch env meth route req w = (resp, w') \<Longrightarrow> serve_step env w (meth, route, req, resp) w'"

text \<open>The worlds reachable from \<open>w0\<close> by serving requests in sequence.\<close>

inductive reach :: "env \<Rightarrow> world \<Rightarrow> world \<Rightarrow> bool" for env w0 where
  start: "reach env w0 w0"
| step: "reach env w0 w \<Longrightarrow> serve_step env w ev w' \<Longrightarrow> reach env w0 w'"

section \<open>Lemmas\<close>

inductive_cases serve_stepE: "serve_step env w ev w'"

lemma dispatch_uuid:
  assumes "dispatch env meth route req w = (resp, w')"
  shows "uuid_hex w' = uuid_hex w \<and> uuid_count w \<le> uuid_count w'"
proof (cases "route = ''/verify'' \<and> meth = ''POST''")
  case True
  obtain r where "verify env req w = (r, w')"
    using assms True by (cases "verify env req w") (auto simp: dispatch_def)
  then show ?thesis by (auto dest: verify_uuid_frame)
next
  case False
  then show ?thesis using assms by (auto simp: dispatch_def split: if_splits)
qed

lemma dispatch_deletes:
  assumes enc: "\<forall>img. \<exists>b. encode_image env 75 img = Inr b"
    and run: "dispatch env meth route req w = (resp, w')"
  shows "only_deletes w w'"
proof (cases "route = ''/verify'' \<and> meth = ''POST''")
  case True
  obtain r where "verify env req w = (r, w')"
    using run True by (cases "verify env req w") (auto simp: dispatch_def)
  with enc show ?thesis by (rule verify_deletes_only)
next
  case False
  then show ?thesis using run by (auto simp: dispatch_def split: if_splits)
qed

lemma reach_uuid:
  "reach env w0 w \<Longrightarrow> uuid_hex w = uuid_hex w0 \<and> uuid_count w0 \<le> uuid_count w"
proof (induction rule: reach.induct)
  case start
  then show ?case by simp
next
  case (step w ev w')
  then obtain meth route req resp where d: "dispatch env meth route req w = (resp, w')"
    by (blast elim: serve_stepE)
  with dispatch_uuid [OF d] step.IH show ?case by simp
qed

lemma dispatch_names:
  assumes "dispatch env meth route req w = (resp, w')" and "files w' q \<noteq> files w q"
  shows "named_by_range (uuid_hex w) (uuid_count w) (uuid_count w') q"
proof (cases "route = ''/verify'' \<and> meth = ''POST''")
  case True
  obtain r where "verify env req w = (r, w')"
    using assms(1) True by (cases "verify env req w") (auto simp: dispatch_def)
  from verify_names [OF this assms(2)] show ?thesis .
next
  case False
  then show ?thesis using assms by (auto simp: dispatch_def split: if_splits)
qed

lemma reach_names:
  "reach env w0 w \<Longrightarrow> files w q \<noteq> files w0 q \<Longrightarrow>
     named_by_range (uuid_hex w0) (uuid_count w0) (uuid_count w) q"
proof (induction rule: reach.induct)
  case start
  then show ?case by simp
next
  case (step w ev w')
  then obtain meth route req resp where d: "dispatch env meth route req w = (resp, w')"
    by (blast elim: serve_stepE)
  have u: "uuid_hex w = uuid_hex w0 \<and> uuid_count w0 \<le> uuid_count w" by (rule reach_uuid [OF step.hyps(1)])
  have u': "uuid_count w \<le> uuid_count w'" using dispatch_uuid [OF d] by simp
  show ?case
  proof (cases "files w q = files w0 q")
    case True
    with step.prems have "files w' q \<noteq> files w q" by simp
    from dispatch_names [OF d this] u have "named_by_range (uuid_hex w0) (uuid_count w) (uuid_count w') q"
      by simp
    then show ?thesis by (rule named_by_range_mono) (use u in simp_all)
  next
    case False
    from step.IH [OF False] u' show ?thesis by (auto elim: named_by_range_mono)
  qed
qed

lemma reach_frame:
  assumes enc: "\<forall>img. \<exists>b. encode_image env 75 img = Inr b"
  shows "reach env w0 w \<Longrightarrow>
           only_deletes w0 w \<and> uuid_hex w = uuid_hex w0 \<and> uuid_count w0 \<le> uuid_count w"
proof (induction rule: reach.induct)
  case start
  then show ?case by simp
next
  case (step w ev w')
  then obtain meth route req resp where d: "dispatch env meth route req w = (resp, w')"
    by (blast elim: serve_stepE)
  from dispatch_deletes [OF enc d] step.IH have "only_deletes w0 w'" by (blast intro: only_deletes_trans)
  with dispatch_uuid [OF d] step.IH show ?case by simp
qed

section \<open>Properties\<close>

text \<open>C3: the invariant of spec section 3, "no stored state survives between
  requests": a server started on a world \<open>w0\<close> only ever deletes files of
  \<open>w0\<close>, whatever requests it serves and in whatever order, and its uuid
  generator only moves forward, provided every face crop encodes. In particular an
  upload folder that starts empty stays empty.\<close>

theorem reach_only_deletes:
  assumes "\<forall>img. \<exists>b. encode_image env 75 img = Inr b"
    and "reach env w0 w"
  shows "only_deletes w0 w \<and> uuid_hex w = uuid_hex w0 \<and> uuid_count w0 \<le> uuid_count w"
  using reach_frame [OF assms(1)] assms(2) by blast

text \<open>C8: over any sequence of requests, a file is only ever changed at a path
  named by a uuid drawn during the run: files that were there before, under other
  names, are never touched, whatever the libraries do.\<close>

theorem reach_own_names:
  assumes "\<forall>n. uuid_hex w0 n = [] \<or> hd (uuid_hex w0 n) \<noteq> CHR ''/''"
    and "reach env w0 w" and "files w q \<noteq> files w0 q"
  shows "drawn_names (uuid_hex w0) (uuid_count w0) (uuid_count w) q"
  using assms(1) reach_names [OF assms(2,3)] by (rule named_by_range_drawn)

text \<open>C9: confinement. When the uuid generator never yields an absolute name
  (a uuid4 hex never starts with a slash), every file of a reachable world lies
  under \<^verbatim>\<open>uploads/\<close> or was already there, unchanged, at the start: the
  server never writes outside its upload folder.\<close>

theorem reach_confined:
  assumes rel: "\<forall>n. uuid_hex w0 n = [] \<or> hd (uuid_hex w0 n) \<noteq> CHR ''/''"
    and r: "reach env w0 w" and f: "files w p = Some b"
  shows "prefix ''uploads/'' p \<or> files w0 p = Some b"
proof (cases "files w p = files w0 p")
  case True
  with f show ?thesis by simp
next
  case False
  from reach_names [OF r False] obtain k where "named_by (uuid_hex w0 k) p"
    by (auto simp: named_by_range_iff)
  with rel have "own_name (uuid_hex w0 k) p" by (blast intro: named_by_own_name)
  then show ?thesis using own_name_confined by blast
qed

end
