(* ===== verification/Spec2Isabelle.thy ===== *)
theory Spec2Isabelle
  imports Server
begin

text \<open>
  \<^bold>\<open>A verification library for the face-verification service src/app.py.\<close>

  \<^bold>\<open>The program.\<close> One Flask module. The route \<^verbatim>\<open>POST /verify\<close> (function
  \<^verbatim>\<open>verify\<close>, lines 58--141) validates five uploads (\<^verbatim>\<open>allowed_file\<close>, lines
  24--25, and the loop of lines 60--68), stores each as a bounded JPEG under a
  uuid name (\<^verbatim>\<open>save_file\<close>, lines 27--38), crops the largest face of the selfie
  (\<^verbatim>\<open>crop_face\<close>, lines 40--51), and for each candidate in order crops its face,
  saves both crops to temporary files, calls DeepFace on them under
  \<^verbatim>\<open>try/except/finally\<close>, and classifies the distance against 0.55 (lines
  83--127); the final decision is the disjunction of the matches (line 129); an
  outer \<^verbatim>\<open>finally\<close> removes every stored upload, swallowing errors (lines
  136--141). \<^verbatim>\<open>GET /\<close> is \<^verbatim>\<open>home\<close> (lines 54--56).

  \<^bold>\<open>The model.\<close> A shallow embedding. The world (theory \<open>Runtime\<close>, record
  \<open>world\<close>) is the upload folder as a map from paths to contents and a uuid
  generator \<open>uuid_hex\<close> with a counter. Code that may raise runs in an
  exception-and-state monad \<open>('s, 'a) io = 's \<Rightarrow> (exn + 'a) \<times> 's\<close> (theory
  \<open>Prelude\<close>, with \<open>try_except\<close> and \<open>try_finally\<close> as in Python). The libraries
  (Pillow, MTCNN, DeepFace, werkzeug's \<^verbatim>\<open>secure_filename\<close>) are the fields of the
  record \<open>env\<close>: every theorem holds for every behaviour of them unless it states
  a hypothesis on them, and \<open>demo_env\<close> is one concrete instance used to run the
  examples. Python's semantics used by the code is written out in \<open>Prelude\<close>:
  slicing with CPython's bound rules (\<open>py_slice\<close>), indexing that raises
  (\<open>py_index\<close>), \<^verbatim>\<open>rsplit\<close>, ASCII \<^verbatim>\<open>lower\<close>, decimal f-strings, and
  \<^verbatim>\<open>max\<close> with a key.

  \<^bold>\<open>Theories, in import order.\<close>
  \<^item> \<open>Prelude\<close>: the monad and the Python helpers, their lemmas, and the lemma that
    \<^verbatim>\<open>max(.., key=..)\<close> picks the first element of largest key (\<open>py_max_key_first_max\<close>),
    which \<open>crop_face\<close>'s characterisation uses.
  \<^item> \<open>Runtime\<close>: configuration constants (lines 11--19), the world, the request and
    response shapes, the file operations \<open>read_file\<close>, \<open>pil_save\<close>, \<open>os_remove\<close>
    (which raises on a missing file), \<open>uuid4_hex\<close>, and \<open>only_deletes w w'\<close>: between
    \<open>w\<close> and \<open>w'\<close> files were at most deleted.
  \<^item> \<open>Validation\<close>: \<open>allowed_file\<close>, \<open>files_get\<close> (werkzeug raises 413 when the body
    is over \<^verbatim>\<open>MAX_CONTENT_LENGTH\<close>; an upload with an empty name is falsy) and
    \<open>validate_fields\<close> against the reference \<open>first_error\<close> (C10, C21, C22).
  \<^item> \<open>Storage\<close>: \<open>save_file\<close>; its effect (C15), the size bound (C23) and the round
    trip of the stored extension (C20).
  \<^item> \<open>FaceCrop\<close>: \<open>crop_face\<close> and the numpy crop \<open>crop_box\<close> (C14, C24, C25).
  \<^item> \<open>Scorer\<close>: \<open>score_pair\<close> (one candidate with a face) and \<open>cand_loop\<close> (the
    loop of lines 84--127), the abstract per-candidate specification
    \<open>spec_entry\<close>/\<open>spec_results\<close> and the refinement of the loop (C6, C11, C12, C13).
  \<^item> \<open>Handler\<close>: \<open>save_all\<close> (lines 72--74), \<open>process\<close> (lines 76--134),
    \<open>cleanup\<close> (lines 136--141), \<open>verify\<close>, \<open>home\<close>, Flask's answer to an escaping
    exception (\<open>flask_response\<close>: 413 or 500) and \<open>dispatch\<close> over routes and
    methods, with Flask's automatic \<^verbatim>\<open>HEAD\<close> and \<^verbatim>\<open>OPTIONS\<close>; the cleanup guarantee (C1), the results (C4), the refinement of the
    request body against \<open>spec_verify\<close> (C5), the frame property that a
    request changes only paths of the literal shapes \<^verbatim>\<open>uploads/<h>.*\<close>,
    \<^verbatim>\<open>uploads/tmp_selfie_<h>.jpg\<close>, \<^verbatim>\<open>uploads/tmp_candidate_<h>.jpg\<close> for
    uuids \<open>h\<close> it draws itself (\<open>own_name\<close>, written independently of the code's
    path helpers; C7), the leak of the temporary selfie crop when a
    candidate crop cannot be saved (C2), the uuid bound (C16) and the error
    answers (C17, C18, C19).
  \<^item> \<open>Server\<close>: requests served one after another as an inductive step relation
    \<open>serve_step\<close> with reachable worlds \<open>reach\<close>; the
    invariant that no stored state survives between requests (C3), the
    invariant that only paths named by uuids drawn during the run ever change
    (C8), confinement of every written file to the upload folder
    (C9).
  \<^item> This theory: concrete runs under \<open>demo_env\<close> (the scenario of spec section 8,
    which answers img2 as the only match with 13 uuids drawn and the folder left
    empty) and under \<open>leak_env\<close> (the encoder fails on the third candidate's crop),
    used as the witnesses of the theorems with hypotheses.

  \<^bold>\<open>Findings.\<close> The temporary crops are saved before the \<^verbatim>\<open>try\<close> of lines
  100--127, so a failing candidate save leaves \<^verbatim>\<open>tmp_selfie_*.jpg\<close> behind (C2,
  C11); the cleanup guarantee holds when the encoder cannot fail (C1, C3).
  Validation reports the first field that is missing \<^emph>\<open>or\<close> invalid, not the first
  missing one (C10). A candidate whose crop raises aborts the request with 500
  (C12). Clipping moves a box that sticks out to the left instead of trimming it
  (C25). Ties between faces go to the first detection (C14). Stored files
  keep the client's extension but hold JPEG data (C15).

  \<^bold>\<open>Bounds and fuel.\<close> No fuel is needed: every loop of the code runs over a
  finite list (the five fields, the saved paths, the candidates), so each is a
  structurally recursive \<open>fun\<close> and every operation is total. The only numeric
  bounds are the ones of the code: 1200 pixels, 10 MiB, 0.55 (a real), 13 uuids
  per request (5 uploads and 2 per candidate).

  \<^bold>\<open>Not modelled.\<close> The internals of Pillow, MTCNN, DeepFace and
  \<^verbatim>\<open>secure_filename\<close> (opaque by spec section 5; they are parameters). Pixel
  data is a list of rows of RGB triples; the resize to 112 by 112 is the
  library's. The JSON encoding of responses is abstracted to the datatype
  \<open>response\<close>. Flask's threaded development server is modelled as serving
  requests one at a time (spec section 7); the process start-up
  (\<^verbatim>\<open>os.makedirs\<close>, \<^verbatim>\<open>app.run\<close>) only creates the folder and starts serving.
\<close>

section \<open>Concrete runs\<close>

text \<open>
  The scenario of the specification (section 8): a selfie and four candidates, all
  with faces, where only the second candidate is the same person. Under the
  library instance \<open>demo_env\<close> the selfie \<open>kk\<close> and candidate 2 \<open>kq\<close> crop to the
  same face, the other candidates to different ones.
\<close>

definition scenario_request :: request where
  "scenario_request =
     \<lparr>req_files =
        [(''selfie'', \<lparr>filename = ''me.jpg'', content = ''kk''\<rparr>),
         (''img1'', \<lparr>filename = ''a.png'', content = ''zz''\<rparr>),
         (''img2'', \<lparr>filename = ''b.JPEG'', content = ''kq''\<rparr>),
         (''img3'', \<lparr>filename = ''c.webp'', content = ''yy''\<rparr>),
         (''img4'', \<lparr>filename = ''d.jpg'', content = ''mm''\<rparr>)],
      content_length = 1000\<rparr>"

text \<open>An empty upload folder; the \<open>n\<close>-th uuid is the decimal string of \<open>n\<close>.\<close>

definition scenario_world :: world where
  "scenario_world = \<lparr>files = Map.empty, uuid_hex = dec_str, uuid_count = 0\<rparr>"

text \<open>The state after the five uploads are saved, with \<open>n\<close> uuids drawn.\<close>

definition scenario_state :: "nat \<Rightarrow> world" where
  "scenario_state n =
     \<lparr>files = [''uploads/0.jpg'' \<mapsto> ''kk'', ''uploads/1.png'' \<mapsto> ''zz'',
               ''uploads/2.jpeg'' \<mapsto> ''kq'', ''uploads/3.webp'' \<mapsto> ''yy'',
               ''uploads/4.jpg'' \<mapsto> ''mm''],
      uuid_hex = dec_str, uuid_count = n\<rparr>"

text \<open>
  The same libraries, except that the JPEG encoder fails on the face crop of the
  third candidate (a disk or encoder error while saving a temporary crop).
\<close>

definition leak_env :: env where
  "leak_env =
     demo_env\<lparr>encode_image := (\<lambda>q img.
        if q = 75 \<and> img = [[(24, 0, 0)]] then Inl (Exn OSError ''[Errno 28] No space left on device'')
        else encode_image demo_env q img)\<rparr>"

text \<open>Inputs for the other witnesses: a selfie without a face, a body over the
  limit, a request with no file, and a two-row image.\<close>

definition no_face_world :: world where
  "no_face_world =
     \<lparr>files = [''uploads/0.jpg'' \<mapsto> ''aa'', ''uploads/1.png'' \<mapsto> ''zz''],
      uuid_hex = dec_str, uuid_count = 2\<rparr>"

definition big_request :: request where
  "big_request = scenario_request\<lparr>content_length := 20 * 1024 * 1024\<rparr>"

definition empty_request :: request where
  "empty_request = \<lparr>req_files = [], content_length = 0\<rparr>"

definition small_image :: image where
  "small_image = [[(1, 0, 0), (2, 0, 0), (3, 0, 0)], [(4, 0, 0), (5, 0, 0), (6, 0, 0)]]"

definition scenario_candidates :: "path list" where
  "scenario_candidates = [''uploads/1.png'', ''uploads/2.jpeg'', ''uploads/3.webp'', ''uploads/4.jpg'']"

definition scenario_crops_list :: "image option list" where
  "scenario_crops_list = [Some [[(25, 0, 0)]], Some [[(10, 0, 0)]], Some [[(24, 0, 0)]], Some [[(12, 0, 0)]]]"

abbreviation scenario_results :: "cand_result list" where
  "scenario_results \<equiv>
     [Scored ''img1'' False (Some 0.8) 0.55 (Some ''ArcFace''),
      Scored ''img2'' True (Some 0.4) 0.55 (Some ''ArcFace''),
      Scored ''img3'' False (Some 0.8) 0.55 (Some ''ArcFace''),
      Scored ''img4'' False (Some 0.8) 0.55 (Some ''ArcFace'')]"

lemmas demo_eval = demo_env_def demo_code_def demo_char_def bound_size_def MAX_DIM_def
  img_width_def img_height_def stored_ext_def py_simps upload_path_def os_path_join_def
  UPLOAD_FOLDER_def Let_def tmp_path_def field_name_def CUSTOM_THRESHOLD_def score_result_def
  no_face_result_def box_area_def crop_box_def first_max_def

lemma scenario_saved:
  assumes "E = demo_env \<or> E = leak_env"
  shows "save_all E (zip expected_fields (map snd (req_files scenario_request))) [] scenario_world =
     ((None, [''uploads/0.jpg'', ''uploads/1.png'', ''uploads/2.jpeg'', ''uploads/3.webp'', ''uploads/4.jpg'']),
      scenario_state 5)"
  using assms
  by (auto simp: scenario_request_def expected_fields_def save_file_eq scenario_world_def
      scenario_state_def leak_env_def demo_eval)

lemma scenario_valid:
  "validate_fields scenario_request expected_fields [] =
     Inr (Inr (zip expected_fields (map snd (req_files scenario_request))))"
  by (simp add: scenario_request_def files_get_def expected_fields_def MAX_CONTENT_LENGTH_def
      allowed_file_def py_simps ALLOWED_EXT_def)

lemma scenario_crops:
  assumes "E = demo_env \<or> E = leak_env"
  shows "crop_face E ''uploads/0.jpg'' (scenario_state n) = (Inr (Some [[(10, 0, 0)]]), scenario_state n)"
    and "crop_face E ''uploads/1.png'' (scenario_state n) = (Inr (Some [[(25, 0, 0)]]), scenario_state n)"
    and "crop_face E ''uploads/2.jpeg'' (scenario_state n) = (Inr (Some [[(10, 0, 0)]]), scenario_state n)"
    and "crop_face E ''uploads/3.webp'' (scenario_state n) = (Inr (Some [[(24, 0, 0)]]), scenario_state n)"
    and "crop_face E ''uploads/4.jpg'' (scenario_state n) = (Inr (Some [[(12, 0, 0)]]), scenario_state n)"
  using assms by (auto simp: crop_face_eq scenario_state_def leak_env_def demo_eval)

lemma scenario_score:
  assumes "E = demo_env \<or> (E = leak_env \<and> k \<noteq> 24)" and "k \<in> {10, 12, 24, 25}"
  shows "score_pair E i [[(10, 0, 0)]] [[(k, 0, 0)]] (scenario_state n) =
      (Inr (score_result i \<lparr>v_distance = Some (if k = 10 then 0.4 else 0.8), v_model = Some ''ArcFace''\<rparr>),
       scenario_state (Suc (Suc n)))"
  using assms by (auto simp: score_pair_eq scenario_state_def leak_env_def demo_eval fun_upd_twist)

lemma leak_score:
  "score_pair leak_env i [[(10, 0, 0)]] [[(24, 0, 0)]] (scenario_state n) =
     (Inl (Exn OSError ''[Errno 28] No space left on device''),
      \<lparr>files = (files (scenario_state n))(''uploads/tmp_selfie_'' @ dec_str n @ ''.jpg'' \<mapsto> ''k''),
       uuid_hex = dec_str, uuid_count = Suc (Suc n)\<rparr>)"
  by (simp add: score_pair_eq scenario_state_def leak_env_def demo_eval)

lemma scenario_loop:
  "cand_loop demo_env [[(10, 0, 0)]] (Suc 0)
       [''uploads/1.png'', ''uploads/2.jpeg'', ''uploads/3.webp'', ''uploads/4.jpg''] [] (scenario_state 5) =
     (Inr [Scored ''img1'' False (Some 0.8) 0.55 (Some ''ArcFace''),
           Scored ''img2'' True (Some 0.4) 0.55 (Some ''ArcFace''),
           Scored ''img3'' False (Some 0.8) 0.55 (Some ''ArcFace''),
           Scored ''img4'' False (Some 0.8) 0.55 (Some ''ArcFace'')], scenario_state 13)"
  (is "?l = ?r")
proof -
  note crop = scenario_crops [of demo_env] and score = scenario_score [of demo_env]
  let ?sf = "[[(10, 0, 0)]] :: image"
  let ?res = "\<lambda>i d. score_result i \<lparr>v_distance = Some d, v_model = Some ''ArcFace''\<rparr>"
  have "?l = cand_loop demo_env ?sf 2 [''uploads/2.jpeg'', ''uploads/3.webp'', ''uploads/4.jpg'']
               [?res 1 0.8] (scenario_state 7)"
    using cand_loop_face_step [OF crop(2) score [of 25]] by (simp add: numeral_eq_Suc del: cand_loop.simps)
  also have "\<dots> = cand_loop demo_env ?sf 3 [''uploads/3.webp'', ''uploads/4.jpg'']
               [?res 1 0.8, ?res 2 0.4] (scenario_state 9)"
    using cand_loop_face_step [OF crop(3) score [of 10]] by (simp add: numeral_eq_Suc del: cand_loop.simps)
  also have "\<dots> = cand_loop demo_env ?sf 4 [''uploads/4.jpg'']
               [?res 1 0.8, ?res 2 0.4, ?res 3 0.8] (scenario_state 11)"
    using cand_loop_face_step [OF crop(4) score [of 24]] by (simp add: numeral_eq_Suc del: cand_loop.simps)
  also have "\<dots> = ?r"
    using cand_loop_face_step [OF crop(5) score [of 12]]
    by (simp add: numeral_eq_Suc return_io_def score_result_def field_name_def CUSTOM_THRESHOLD_def
        del: cand_loop.simps(2))
  finally show ?thesis .
qed

lemma leak_prefix:
  "cand_loop leak_env [[(10, 0, 0)]] 1 [''uploads/1.png'', ''uploads/2.jpeg''] [] (scenario_state 5) =
     (Inr [score_result 1 \<lparr>v_distance = Some 0.8, v_model = Some ''ArcFace''\<rparr>,
           score_result 2 \<lparr>v_distance = Some 0.4, v_model = Some ''ArcFace''\<rparr>], scenario_state 9)"
proof -
  note crop = scenario_crops [of leak_env] and score = scenario_score [of leak_env]
  have "cand_loop leak_env [[(10, 0, 0)]] 1 [''uploads/1.png'', ''uploads/2.jpeg''] [] (scenario_state 5) =
        cand_loop leak_env [[(10, 0, 0)]] 2 [''uploads/2.jpeg'']
          [score_result 1 \<lparr>v_distance = Some 0.8, v_model = Some ''ArcFace''\<rparr>] (scenario_state 7)"
    using cand_loop_face_step [OF crop(2) score [of 25]] by (simp add: numeral_eq_Suc del: cand_loop.simps)
  also have "\<dots> = (Inr [score_result 1 \<lparr>v_distance = Some 0.8, v_model = Some ''ArcFace''\<rparr>,
           score_result 2 \<lparr>v_distance = Some 0.4, v_model = Some ''ArcFace''\<rparr>], scenario_state 9)"
    using cand_loop_face_step [OF crop(3) score [of 10]]
    by (simp add: numeral_eq_Suc return_io_def del: cand_loop.simps(2))
  finally show ?thesis .
qed

lemma leak_loop:
  "cand_loop leak_env [[(10, 0, 0)]] (Suc 0)
       [''uploads/1.png'', ''uploads/2.jpeg'', ''uploads/3.webp'', ''uploads/4.jpg''] [] (scenario_state 5) =
     (Inl (Exn OSError ''[Errno 28] No space left on device''),
      \<lparr>files = (files (scenario_state 9))(''uploads/tmp_selfie_9.jpg'' \<mapsto> ''k''),
       uuid_hex = dec_str, uuid_count = 11\<rparr>)"
proof -
  have "[''uploads/1.png'', ''uploads/2.jpeg'', ''uploads/3.webp'', ''uploads/4.jpg''] =
        [''uploads/1.png'', ''uploads/2.jpeg''] @ [''uploads/3.webp'', ''uploads/4.jpg'']" by simp
  then show ?thesis
    using leak_prefix cand_loop_raise_step [OF scenario_crops(4) [of leak_env] leak_score [of 3 9]]
    by (simp only: One_nat_def cand_loop_append) (simp add: dec_str_digit numeral_eq_Suc del: cand_loop.simps)
qed

lemma scenario_run:
  "verify demo_env scenario_request scenario_world =
     (Inr (Json_results [Scored ''img1'' False (Some 0.8) 0.55 (Some ''ArcFace''),
                         Scored ''img2'' True (Some 0.4) 0.55 (Some ''ArcFace''),
                         Scored ''img3'' False (Some 0.8) 0.55 (Some ''ArcFace''),
                         Scored ''img4'' False (Some 0.8) 0.55 (Some ''ArcFace'')] True),
      scenario_world\<lparr>uuid_count := 13\<rparr>)"
proof -
  let ?saved = "[''uploads/0.jpg'', ''uploads/1.png'', ''uploads/2.jpeg'', ''uploads/3.webp'', ''uploads/4.jpg'']"
  have "verify demo_env scenario_request scenario_world =
     (Inr (Json_results [Scored ''img1'' False (Some 0.8) 0.55 (Some ''ArcFace''),
                         Scored ''img2'' True (Some 0.4) 0.55 (Some ''ArcFace''),
                         Scored ''img3'' False (Some 0.8) 0.55 (Some ''ArcFace''),
                         Scored ''img4'' False (Some 0.8) 0.55 (Some ''ArcFace'')] True),
      cleanup ?saved (scenario_state 13))"
    by (simp add: verify_def scenario_valid verify_body_def scenario_saved process_def py_index_def
        io_simps scenario_crops(1) scenario_loop final_decision_def del: cand_loop.simps cleanup.simps)
  moreover have "cleanup ?saved (scenario_state 13) = scenario_world\<lparr>uuid_count := 13\<rparr>"
    by (simp add: os_remove_def try_except_def return_io_def scenario_state_def scenario_world_def
        fun_eq_iff)
  ultimately show ?thesis by simp
qed

lemma leak_run:
  "verify leak_env scenario_request scenario_world =
     (Inl (Exn OSError ''[Errno 28] No space left on device''),
      \<lparr>files = [''uploads/tmp_selfie_9.jpg'' \<mapsto> ''k''], uuid_hex = dec_str, uuid_count = 11\<rparr>)"
proof -
  let ?saved = "[''uploads/0.jpg'', ''uploads/1.png'', ''uploads/2.jpeg'', ''uploads/3.webp'', ''uploads/4.jpg'']"
  have "verify leak_env scenario_request scenario_world =
     (Inl (Exn OSError ''[Errno 28] No space left on device''),
      cleanup ?saved \<lparr>files = (files (scenario_state 9))(''uploads/tmp_selfie_9.jpg'' \<mapsto> ''k''),
       uuid_hex = dec_str, uuid_count = 11\<rparr>)"
    by (simp add: verify_def scenario_valid verify_body_def scenario_saved process_def py_index_def
        io_simps scenario_crops(1) leak_loop del: cand_loop.simps cleanup.simps)
  moreover have "cleanup ?saved \<lparr>files = (files (scenario_state 9))(''uploads/tmp_selfie_9.jpg'' \<mapsto> ''k''),
       uuid_hex = dec_str, uuid_count = 11\<rparr> =
     \<lparr>files = [''uploads/tmp_selfie_9.jpg'' \<mapsto> ''k''], uuid_hex = dec_str, uuid_count = 11\<rparr>"
    by (simp add: os_remove_def try_except_def return_io_def scenario_state_def fun_eq_iff)
  ultimately show ?thesis by simp
qed

lemma leak_reach:
  "reach leak_env scenario_world
     \<lparr>files = [''uploads/tmp_selfie_9.jpg'' \<mapsto> ''k''], uuid_hex = dec_str, uuid_count = 11\<rparr>"
proof -
  have h: "serve_step leak_env scenario_world (''POST'', ''/verify'', scenario_request, Http_error 500)
      \<lparr>files = [''uploads/tmp_selfie_9.jpg'' \<mapsto> ''k''], uuid_hex = dec_str, uuid_count = 11\<rparr>"
    by (rule serve_step.handle) (simp add: dispatch_def leak_run flask_response_def)
  show ?thesis by (rule reach.step [OF reach.start h])
qed

section \<open>Witnesses\<close>

theorem dispatch_leaks_selfie_crop_witness:
  "validate_fields scenario_request expected_fields [] =
     Inr (Inr (zip expected_fields (map snd (req_files scenario_request))))
   \<and> save_all leak_env (zip expected_fields (map snd (req_files scenario_request))) [] scenario_world =
       ((None, ''uploads/0.jpg'' # [''uploads/1.png'', ''uploads/2.jpeg''] @ ''uploads/3.webp'' # [''uploads/4.jpg'']),
        scenario_state 5)
   \<and> crop_face leak_env ''uploads/0.jpg'' (scenario_state 5) = (Inr (Some [[(10, 0, 0)]]), scenario_state 5)
   \<and> cand_loop leak_env [[(10, 0, 0)]] 1 [''uploads/1.png'', ''uploads/2.jpeg''] [] (scenario_state 5) =
       (Inr [score_result 1 \<lparr>v_distance = Some 0.8, v_model = Some ''ArcFace''\<rparr>,
             score_result 2 \<lparr>v_distance = Some 0.4, v_model = Some ''ArcFace''\<rparr>], scenario_state 9)
   \<and> crop_face leak_env ''uploads/3.webp'' (scenario_state 9) = (Inr (Some [[(24, 0, 0)]]), scenario_state 9)
   \<and> encode_image leak_env 75 [[(10, 0, 0)]] = Inr ''k''
   \<and> encode_image leak_env 75 [[(24, 0, 0)]] = Inl (Exn OSError ''[Errno 28] No space left on device'')
   \<and> exn_class (Exn OSError ''[Errno 28] No space left on device'') \<noteq> RequestEntityTooLarge
   \<and> tmp_path ''tmp_selfie_'' (uuid_hex (scenario_state 9) (uuid_count (scenario_state 9)))
       \<notin> set (''uploads/0.jpg'' # [''uploads/1.png'', ''uploads/2.jpeg''] @ ''uploads/3.webp'' # [''uploads/4.jpg''])
   \<and> fst (dispatch leak_env ''POST'' ''/verify'' scenario_request scenario_world) = Http_error 500
   \<and> files (snd (dispatch leak_env ''POST'' ''/verify'' scenario_request scenario_world))
       (tmp_path ''tmp_selfie_'' (uuid_hex (scenario_state 9) (uuid_count (scenario_state 9)))) = Some ''k''"
proof -
  have sa: "save_all leak_env (zip expected_fields (map snd (req_files scenario_request))) [] scenario_world =
       ((None, ''uploads/0.jpg'' # [''uploads/1.png'', ''uploads/2.jpeg''] @ ''uploads/3.webp'' # [''uploads/4.jpg'']),
        scenario_state 5)"
    using scenario_saved [of leak_env] by simp
  have e1: "encode_image leak_env 75 [[(10, 0, 0)]] = Inr ''k''"
    by (simp add: leak_env_def demo_eval)
  have e2: "encode_image leak_env 75 [[(24, 0, 0)]] = Inl (Exn OSError ''[Errno 28] No space left on device'')"
    by (simp add: leak_env_def)
  have cls: "exn_class (Exn OSError ''[Errno 28] No space left on device'') \<noteq> RequestEntityTooLarge" by simp
  have fr: "tmp_path ''tmp_selfie_'' (uuid_hex (scenario_state 9) (uuid_count (scenario_state 9)))
       \<notin> set (''uploads/0.jpg'' # [''uploads/1.png'', ''uploads/2.jpeg''] @ ''uploads/3.webp'' # [''uploads/4.jpg''])"
    by (simp add: scenario_state_def tmp_path_def os_path_join_def UPLOAD_FOLDER_def)
  note sel = scenario_crops(1) [of leak_env 5] and cand = scenario_crops(4) [of leak_env 9]
  from dispatch_leaks_selfie_crop [OF scenario_valid sa sel leak_prefix cand e1 e2 cls fr]
  show ?thesis using scenario_valid sa sel leak_prefix cand e1 e2 cls fr by simp
qed

theorem verify_only_deletes_witness:
  "(\<forall>img. \<exists>b. encode_image demo_env 75 img = Inr b)
   \<and> verify demo_env scenario_request scenario_world =
       (Inr (Json_results scenario_results True), scenario_world\<lparr>uuid_count := 13\<rparr>)
   \<and> only_deletes scenario_world (scenario_world\<lparr>uuid_count := 13\<rparr>)"
proof -
  have enc: "\<forall>img. \<exists>b. encode_image demo_env 75 img = Inr b" by (simp add: demo_env_def)
  show ?thesis using enc scenario_run verify_only_deletes [OF enc scenario_run] by simp
qed

theorem verify_uuid_bound_witness:
  "verify demo_env scenario_request scenario_world =
       (Inr (Json_results scenario_results True), scenario_world\<lparr>uuid_count := 13\<rparr>)
   \<and> uuid_hex (scenario_world\<lparr>uuid_count := 13\<rparr>) = uuid_hex scenario_world
   \<and> uuid_count scenario_world \<le> uuid_count (scenario_world\<lparr>uuid_count := 13\<rparr>)
   \<and> uuid_count (scenario_world\<lparr>uuid_count := 13\<rparr>) \<le> uuid_count scenario_world + 13"
  using scenario_run verify_uuid_bound [OF scenario_run] by simp

theorem verify_results_witness:
  "verify demo_env scenario_request scenario_world =
       (Inr (Json_results scenario_results True), scenario_world\<lparr>uuid_count := 13\<rparr>)
   \<and> map cr_field scenario_results = [''img1'', ''img2'', ''img3'', ''img4'']
   \<and> (True \<longleftrightarrow> (\<exists>x \<in> set scenario_results. result_match x))"
  using scenario_run verify_results [OF scenario_run] by simp

theorem process_no_selfie_face_witness:
  "crop_face demo_env ''uploads/0.jpg'' no_face_world = (Inr None, no_face_world)
   \<and> process demo_env [''uploads/0.jpg'', ''uploads/1.png''] no_face_world =
       (Inr no_selfie_face, no_face_world)"
proof -
  have c: "crop_face demo_env ''uploads/0.jpg'' no_face_world = (Inr None, no_face_world)"
    by (simp add: crop_face_eq no_face_world_def demo_eval)
  show ?thesis using c process_no_selfie_face [OF c] by simp
qed

theorem dispatch_too_large_witness:
  "MAX_CONTENT_LENGTH < content_length big_request
   \<and> dispatch demo_env ''POST'' ''/verify'' big_request scenario_world = (Http_error 413, scenario_world)"
proof -
  have c: "MAX_CONTENT_LENGTH < content_length big_request"
    by (simp add: big_request_def MAX_CONTENT_LENGTH_def)
  show ?thesis using c dispatch_too_large [OF c] by simp
qed

theorem verify_rejected_witness:
  "validate_fields empty_request expected_fields [] = Inr (Inl (missing_field ''selfie''))
   \<and> verify demo_env empty_request scenario_world = (Inr (missing_field ''selfie''), scenario_world)"
proof -
  have v: "validate_fields empty_request expected_fields [] = Inr (Inl (missing_field ''selfie''))"
    by (simp add: empty_request_def expected_fields_def files_get_def MAX_CONTENT_LENGTH_def)
  show ?thesis using v verify_rejected [OF v] by simp
qed

theorem crop_box_inside_witness:
  "rectangular 3 small_image
   \<and> crop_box small_image \<lparr>box_x = 1, box_y = 1, box_w = 2, box_h = 1\<rparr> = [[(5, 0, 0), (6, 0, 0)]]"
proof -
  have r: "rectangular 3 small_image" by (simp add: rectangular_def small_image_def)
  show ?thesis
    using r crop_box_inside [OF r, of "\<lparr>box_x = 1, box_y = 1, box_w = 2, box_h = 1\<rparr>"]
    by (simp add: small_image_def)
qed

theorem crop_box_left_clipped_witness:
  "crop_box small_image \<lparr>box_x = -1, box_y = 0, box_w = 2, box_h = 1\<rparr> = [[(1, 0, 0), (2, 0, 0)]]"
  using crop_box_left_clipped [of "\<lparr>box_x = -1, box_y = 0, box_w = 2, box_h = 1\<rparr>" small_image]
  by (simp add: small_image_def py_simps)

theorem allowed_file_iff_witness:
  "allowed_file ''b.JPEG'' = Inr True
   \<and> (\<exists>a e. ''b.JPEG'' = a @ ''.'' @ e \<and> CHR ''.'' \<notin> set e \<and> py_lower e \<in> ALLOWED_EXT)"
proof -
  have a: "allowed_file ''b.JPEG'' = Inr True"
    by (simp add: allowed_file_def py_simps ALLOWED_EXT_def)
  show ?thesis using a allowed_file_iff [of "''b.JPEG''"] by simp
qed

theorem score_result_match_witness:
  "result_match (score_result 2 \<lparr>v_distance = Some 0.4, v_model = Some ''ArcFace''\<rparr>)
   \<and> cr_field (score_result 2 \<lparr>v_distance = Some 0.4, v_model = Some ''ArcFace''\<rparr>) = ''img2''"
proof -
  let ?r = "\<lparr>v_distance = Some 0.4, v_model = Some ''ArcFace''\<rparr> :: vresult"
  have d: "\<exists>d. v_distance ?r = Some d \<and> d \<le> 0.55" by (rule exI [of _ "0.4"]) simp
  have f: "field_name 2 = ''img2''" by (simp add: field_name_def dec_str_digit)
  note m = score_result_match [of 2 ?r]
  have "result_match (score_result 2 ?r)" using d by (rule iffD2 [OF conjunct1 [OF m]])
  moreover have "cr_field (score_result 2 ?r) = ''img2''"
    using conjunct2 [OF conjunct2 [OF conjunct2 [OF m]]] f by (rule trans)
  ultimately show ?thesis ..
qed

theorem cand_loop_refines_witness:
  "(\<forall>img. encode_image demo_env 75 img = Inr (concat (map (map (\<lambda>(r, g, b). demo_char r)) img)))
   \<and> list_all2 (\<lambda>p c. crop_face demo_env p (scenario_state 5) = (Inr c, scenario_state 5))
       scenario_candidates scenario_crops_list
   \<and> set scenario_candidates \<inter> set (tmp_names dec_str 5 4) = {}
   \<and> fst (cand_loop demo_env [[(10, 0, 0)]] 1 scenario_candidates [] (scenario_state 5)) =
       Inr (spec_results (\<lambda>a b. deepface_verify demo_env
              (Some (concat (map (map (\<lambda>(r, g, b). demo_char r)) a)))
              (Some (concat (map (map (\<lambda>(r, g, b). demo_char r)) b)))) [[(10, 0, 0)]] 1 scenario_crops_list)"
proof -
  have j: "\<forall>img. encode_image demo_env 75 img = Inr (concat (map (map (\<lambda>(r, g, b). demo_char r)) img))"
    by (simp add: demo_env_def)
  have c: "list_all2 (\<lambda>p c. crop_face demo_env p (scenario_state 5) = (Inr c, scenario_state 5))
       scenario_candidates scenario_crops_list"
    by (simp add: scenario_candidates_def scenario_crops_list_def scenario_crops)
  have f: "set scenario_candidates \<inter> set (tmp_names dec_str 5 4) = {}"
    by (simp add: scenario_candidates_def numeral_eq_Suc tmp_path_def os_path_join_def UPLOAD_FOLDER_def)
  have "set scenario_candidates \<inter> set (tmp_names (uuid_hex (scenario_state 5)) (uuid_count (scenario_state 5))
          (length scenario_candidates)) = {}"
  proof -
    have "uuid_hex (scenario_state 5) = dec_str" "uuid_count (scenario_state 5) = 5"
      "length scenario_candidates = 4"
      by (simp_all add: scenario_state_def scenario_candidates_def)
    with f show ?thesis by (simp only:)
  qed
  from cand_loop_refines [OF j c this, of "[[(10, 0, 0)]]" 1 "[]"] j c f show ?thesis by simp
qed

theorem process_refines_witness:
  "(\<forall>img. encode_image demo_env 75 img = Inr (concat (map (map (\<lambda>(r, g, b). demo_char r)) img)))
   \<and> list_all2 (\<lambda>p c. crop_face demo_env p (scenario_state 5) = (Inr c, scenario_state 5))
       (''uploads/0.jpg'' # scenario_candidates) (Some [[(10, 0, 0)]] # scenario_crops_list)
   \<and> set scenario_candidates \<inter> set (tmp_names dec_str 5 4) = {}
   \<and> fst (process demo_env (''uploads/0.jpg'' # scenario_candidates) (scenario_state 5)) =
       Inr (spec_verify (\<lambda>a b. deepface_verify demo_env
              (Some (concat (map (map (\<lambda>(r, g, b). demo_char r)) a)))
              (Some (concat (map (map (\<lambda>(r, g, b). demo_char r)) b)))) (Some [[(10, 0, 0)]]) scenario_crops_list)"
proof -
  have j: "\<forall>img. encode_image demo_env 75 img = Inr (concat (map (map (\<lambda>(r, g, b). demo_char r)) img))"
    by (simp add: demo_env_def)
  have c: "list_all2 (\<lambda>p c. crop_face demo_env p (scenario_state 5) = (Inr c, scenario_state 5))
       (''uploads/0.jpg'' # scenario_candidates) (Some [[(10, 0, 0)]] # scenario_crops_list)"
    by (simp add: scenario_candidates_def scenario_crops_list_def scenario_crops)
  have f: "set scenario_candidates \<inter> set (tmp_names dec_str 5 4) = {}"
    by (simp add: scenario_candidates_def numeral_eq_Suc tmp_path_def os_path_join_def UPLOAD_FOLDER_def)
  have "set scenario_candidates \<inter> set (tmp_names (uuid_hex (scenario_state 5)) (uuid_count (scenario_state 5))
          (length scenario_candidates)) = {}"
  proof -
    have "uuid_hex (scenario_state 5) = dec_str" "uuid_count (scenario_state 5) = 5"
      "length scenario_candidates = 4"
      by (simp_all add: scenario_state_def scenario_candidates_def)
    with f show ?thesis by (simp only:)
  qed
  from process_refines [OF j c this] j c f show ?thesis by simp
qed

theorem cand_loop_crop_error_witness:
  "crop_face demo_env ''uploads/9.jpg'' no_face_world = (Inl (no_such_file ''uploads/9.jpg''), no_face_world)
   \<and> cand_loop demo_env [[(10, 0, 0)]] 1 [''uploads/9.jpg'', ''uploads/1.png''] [] no_face_world =
       (Inl (no_such_file ''uploads/9.jpg''), no_face_world)"
proof -
  have c: "crop_face demo_env ''uploads/9.jpg'' no_face_world = (Inl (no_such_file ''uploads/9.jpg''), no_face_world)"
    by (simp add: crop_face_eq no_face_world_def)
  show ?thesis using c cand_loop_crop_error [OF c] by simp
qed

theorem reach_only_deletes_witness:
  "(\<forall>img. \<exists>b. encode_image demo_env 75 img = Inr b)
   \<and> reach demo_env scenario_world (scenario_world\<lparr>uuid_count := 13\<rparr>)
   \<and> only_deletes scenario_world (scenario_world\<lparr>uuid_count := 13\<rparr>)
   \<and> uuid_hex (scenario_world\<lparr>uuid_count := 13\<rparr>) = uuid_hex scenario_world
   \<and> uuid_count scenario_world \<le> uuid_count (scenario_world\<lparr>uuid_count := 13\<rparr>)"
proof -
  have enc: "\<forall>img. \<exists>b. encode_image demo_env 75 img = Inr b" by (simp add: demo_env_def)
  have h1: "serve_step demo_env scenario_world (''GET'', ''/'', empty_request, home) scenario_world"
    by (rule serve_step.handle) (simp add: dispatch_def)
  have h2: "serve_step demo_env scenario_world
      (''POST'', ''/verify'', scenario_request, Json_results scenario_results True)
      (scenario_world\<lparr>uuid_count := 13\<rparr>)"
    by (rule serve_step.handle) (simp add: dispatch_def scenario_run flask_response_def)
  have r: "reach demo_env scenario_world (scenario_world\<lparr>uuid_count := 13\<rparr>)"
    by (rule reach.step [OF reach.step [OF reach.start h1] h2])
  show ?thesis using enc r reach_only_deletes [OF enc r] by simp
qed

theorem save_file_ext_roundtrip_witness:
  "save_file demo_env \<lparr>filename = ''b.JPEG'', content = ''kq''\<rparr> scenario_world =
     (Inr ''uploads/0.jpeg'', \<lparr>files = [''uploads/0.jpeg'' \<mapsto> ''kq''], uuid_hex = dec_str, uuid_count = 1\<rparr>)
   \<and> ext_of ''uploads/0.jpeg'' = ext_of (secure_filename demo_env ''b.JPEG'')"
proof -
  have s: "save_file demo_env \<lparr>filename = ''b.JPEG'', content = ''kq''\<rparr> scenario_world =
     (Inr ''uploads/0.jpeg'', \<lparr>files = [''uploads/0.jpeg'' \<mapsto> ''kq''], uuid_hex = dec_str, uuid_count = 1\<rparr>)"
    by (simp add: save_file_eq scenario_world_def demo_eval)
  show ?thesis using s save_file_ext_roundtrip [OF s] by simp
qed

theorem verify_own_names_witness:
  "(\<forall>n. dec_str n = [] \<or> hd (dec_str n) \<noteq> CHR ''/'')
   \<and> verify leak_env scenario_request scenario_world =
     (Inl (Exn OSError ''[Errno 28] No space left on device''),
      \<lparr>files = [''uploads/tmp_selfie_9.jpg'' \<mapsto> ''k''], uuid_hex = dec_str, uuid_count = 11\<rparr>)
   \<and> files \<lparr>files = [''uploads/tmp_selfie_9.jpg'' \<mapsto> ''k''], uuid_hex = dec_str, uuid_count = 11\<rparr>
         ''uploads/tmp_selfie_9.jpg'' \<noteq> files scenario_world ''uploads/tmp_selfie_9.jpg''
   \<and> drawn_names dec_str 0 11 ''uploads/tmp_selfie_9.jpg''"
proof -
  have c: "files \<lparr>files = [''uploads/tmp_selfie_9.jpg'' \<mapsto> ''k''], uuid_hex = dec_str, uuid_count = 11\<rparr>
         ''uploads/tmp_selfie_9.jpg'' \<noteq> files scenario_world ''uploads/tmp_selfie_9.jpg''"
    by (simp add: scenario_world_def)
  have rel: "\<forall>n. uuid_hex scenario_world n = [] \<or> hd (uuid_hex scenario_world n) \<noteq> CHR ''/''"
    by (simp add: scenario_world_def dec_str_relative)
  from verify_own_names [OF rel leak_run c] have "drawn_names dec_str 0 11 ''uploads/tmp_selfie_9.jpg''"
    by (simp add: scenario_world_def)
  with rel leak_run c show ?thesis by (simp add: scenario_world_def)
qed

theorem reach_own_names_witness:
  "(\<forall>n. dec_str n = [] \<or> hd (dec_str n) \<noteq> CHR ''/'')
   \<and> reach leak_env scenario_world
     \<lparr>files = [''uploads/tmp_selfie_9.jpg'' \<mapsto> ''k''], uuid_hex = dec_str, uuid_count = 11\<rparr>
   \<and> files \<lparr>files = [''uploads/tmp_selfie_9.jpg'' \<mapsto> ''k''], uuid_hex = dec_str, uuid_count = 11\<rparr>
         ''uploads/tmp_selfie_9.jpg'' \<noteq> files scenario_world ''uploads/tmp_selfie_9.jpg''
   \<and> drawn_names dec_str 0 11 ''uploads/tmp_selfie_9.jpg''"
proof -
  note r = leak_reach
  have c: "files \<lparr>files = [''uploads/tmp_selfie_9.jpg'' \<mapsto> ''k''], uuid_hex = dec_str, uuid_count = 11\<rparr>
         ''uploads/tmp_selfie_9.jpg'' \<noteq> files scenario_world ''uploads/tmp_selfie_9.jpg''"
    by (simp add: scenario_world_def)
  have rel: "\<forall>n. uuid_hex scenario_world n = [] \<or> hd (uuid_hex scenario_world n) \<noteq> CHR ''/''"
    by (simp add: scenario_world_def dec_str_relative)
  from reach_own_names [OF rel r c] have "drawn_names dec_str 0 11 ''uploads/tmp_selfie_9.jpg''"
    by (simp add: scenario_world_def)
  with rel r c show ?thesis by (simp add: scenario_world_def)
qed

theorem reach_confined_witness:
  "(\<forall>n. dec_str n = [] \<or> hd (dec_str n) \<noteq> CHR ''/'')
   \<and> reach leak_env scenario_world
       \<lparr>files = [''uploads/tmp_selfie_9.jpg'' \<mapsto> ''k''], uuid_hex = dec_str, uuid_count = 11\<rparr>
   \<and> prefix ''uploads/'' ''uploads/tmp_selfie_9.jpg''"
proof -
  have rel: "\<forall>n. uuid_hex scenario_world n = [] \<or> hd (uuid_hex scenario_world n) \<noteq> CHR ''/''"
    by (simp add: scenario_world_def dec_str_relative)
  have f: "files \<lparr>files = [''uploads/tmp_selfie_9.jpg'' \<mapsto> ''k''], uuid_hex = dec_str, uuid_count = 11\<rparr>
      ''uploads/tmp_selfie_9.jpg'' = Some ''k''" by simp
  from reach_confined [OF rel leak_reach f]
  have "prefix ''uploads/'' ''uploads/tmp_selfie_9.jpg''" by (simp add: scenario_world_def)
  with rel leak_reach show ?thesis by (simp add: scenario_world_def)
qed

end
